theory Spec2Isabelle
  imports Complex_Main "HOL-Library.AList"
begin

section \<open>Candidate records\<close>

text \<open>
  The \<^verbatim>\<open>Candidate\<close> interface of \<^verbatim>\<open>src/lib/notion.ts\<close>, restricted to the fields
  that the aggregation functions read (plus \<^verbatim>\<open>id\<close> and \<^verbatim>\<open>name\<close>, which
  identify a record). Modelling decisions:

  \<^item> a JavaScript \<^verbatim>\<open>number\<close> score is an exact rational: sums, differences and
    means are computed without rounding, and \<^verbatim>\<open>NaN\<close> and the infinities are not
    represented (the adapter \<^verbatim>\<open>getCandidates\<close> replaces a missing score by 0);
  \<^item> the string fields are declared non-optional by the interface; the code only tests
    them for truthiness before use, and a property that is absent at run time is falsy
    exactly like the empty string, so an absent value is represented by \<open>''''\<close>.
\<close>

record Candidate =
  candidateId :: string
  name :: string
  dateAdded :: string
  status :: string
  source :: string
  jobRole :: string
  role :: string
  aiScore :: rat
  humanScore :: rat
  passedAiFilter :: bool
  passedHumanFilter :: bool

text \<open>The test that the code writes out wherever it needs both scores:
  \<^verbatim>\<open>candidate.aiScore > 0 && candidate.humanScore > 0\<close>.\<close>

definition hasBothScores :: "Candidate \<Rightarrow> bool" where
  "hasBothScores candidate \<longleftrightarrow> aiScore candidate > 0 \<and> humanScore candidate > 0"

text \<open>\<^verbatim>\<open>Math.max(...ds)\<close> and \<^verbatim>\<open>Math.min(...ds)\<close>. With no argument JavaScript returns
  \<^verbatim>\<open>-Infinity\<close> and \<^verbatim>\<open>Infinity\<close>, which are no rationals: the empty case is left
  without an equation, and every call in the code is guarded by a length test.\<close>

fun Math_max :: "rat list \<Rightarrow> rat" where
  "Math_max (d # ds) = fold max ds d"

fun Math_min :: "rat list \<Rightarrow> rat" where
  "Math_min (d # ds) = fold min ds d"

section \<open>calculateScoreDiscrepancy\<close>

text \<open>The object returned by \<^verbatim>\<open>calculateScoreDiscrepancy\<close>. The property
  \<^verbatim>\<open>discrepancies\<close> exists only on the object of the second \<^verbatim>\<open>return\<close>: \<open>None\<close>
  stands for its absence.\<close>

record ScoreAnalysis =
  averageDiscrepancy :: rat
  maxDiscrepancy :: rat
  minDiscrepancy :: rat
  totalCandidates :: nat
  aiHigherCount :: nat
  humanHigherCount :: nat
  equalScoresCount :: nat
  discrepancies :: "rat list option"

definition calculateScoreDiscrepancy :: "Candidate list \<Rightarrow> ScoreAnalysis" where
  "calculateScoreDiscrepancy candidates =
    (let validCandidates =
           filter (\<lambda>candidate. aiScore candidate > 0 \<and> humanScore candidate > 0) candidates
     in if length validCandidates = 0 then
          \<lparr> averageDiscrepancy = 0, maxDiscrepancy = 0, minDiscrepancy = 0,
            totalCandidates = 0, aiHigherCount = 0, humanHigherCount = 0,
            equalScoresCount = 0, discrepancies = None \<rparr>
        else
          (let ds = map (\<lambda>candidate. aiScore candidate - humanScore candidate) validCandidates;
               aiHigher = length (filter (\<lambda>d. d > 0) ds);
               humanHigher = length (filter (\<lambda>d. d < 0) ds);
               equalScores = length (filter (\<lambda>d. d = 0) ds)
           in \<lparr> averageDiscrepancy = foldl (\<lambda>sum d. sum + d) 0 ds / of_nat (length ds),
                maxDiscrepancy = Math_max ds,
                minDiscrepancy = Math_min ds,
                totalCandidates = length validCandidates,
                aiHigherCount = aiHigher,
                humanHigherCount = humanHigher,
                equalScoresCount = equalScores,
                discrepancies = Some (map abs ds) \<rparr>))"

text \<open>A record with the given scores and every other field empty, for concrete inputs.\<close>

definition scoresOnly :: "rat \<Rightarrow> rat \<Rightarrow> Candidate" where
  "scoresOnly ai human =
    \<lparr> candidateId = '''', name = '''', dateAdded = '''', status = '''', source = '''',
      jobRole = '''', role = '''', aiScore = ai, humanScore = human,
      passedAiFilter = False, passedHumanFilter = False \<rparr>"

text \<open>The list of the specification's worked example.\<close>

definition specExample :: "Candidate list" where
  "specExample = [scoresOnly 8 6, scoresOnly 4 7, scoresOnly 9 9, scoresOnly 3 0]"

section \<open>Dates\<close>

text \<open>
  A JavaScript \<^verbatim>\<open>Date\<close> is its time value: the milliseconds since the epoch, an
  integer. The methods the code calls are those of ECMAScript (section "Date Objects"),
  with its abstract operations under their own names. What the host supplies is a
  parameter of the model:

  \<^item> the time zone, as the two readings of the implementation-defined
    \<^verbatim>\<open>LocalTZA(t, isUTC)\<close>: \<open>utcOffset h t\<close> is the offset of local time from UTC, in
    milliseconds, at the instant \<open>t\<close>, and \<open>localOffset h t\<close> is the offset the host
    uses to interpret the local time \<open>t\<close>. Both may change with \<open>t\<close>, as they do on
    a host with daylight-saving time; a local time that a clock change skips or repeats
    is interpreted with the offset before the change;
  \<^item> \<open>parse\<close>, the result of \<^verbatim>\<open>new Date(string)\<close>: \<open>Some t\<close> for a string the host
    parses to the time value \<open>t\<close>, \<open>None\<close> for an Invalid Date, whose
    \<^verbatim>\<open>getTime()\<close> is \<^verbatim>\<open>NaN\<close>.

  The reference date \<open>today\<close> is \<^verbatim>\<open>new Date()\<close>, the clock reading at the call.
  Time values stay far inside the range of \<^verbatim>\<open>TimeClip\<close>, which is not modelled.
\<close>

record Host =
  utcOffset :: "int \<Rightarrow> int"
  localOffset :: "int \<Rightarrow> int"

definition msPerDay :: int where
  "msPerDay = 86400000"

definition Day :: "int \<Rightarrow> int" where
  "Day t = t div msPerDay"

definition TimeWithinDay :: "int \<Rightarrow> int" where
  "TimeWithinDay t = t mod msPerDay"

definition WeekDay :: "int \<Rightarrow> int" where
  "WeekDay t = (Day t + 4) mod 7"

definition LocalTime :: "Host \<Rightarrow> int \<Rightarrow> int" where
  "LocalTime h t = t + utcOffset h t"

definition UTC :: "Host \<Rightarrow> int \<Rightarrow> int" where
  "UTC h t = t - localOffset h t"

definition MakeTime :: "int \<Rightarrow> int \<Rightarrow> int \<Rightarrow> int \<Rightarrow> int" where
  "MakeTime hour minute sec ms = hour * 3600000 + minute * 60000 + sec * 1000 + ms"

definition MakeDate :: "int \<Rightarrow> int \<Rightarrow> int" where
  "MakeDate day time = day * msPerDay + time"

text \<open>The proleptic Gregorian date (year, month 1..12, day of month) of a day number
  counted from 1970-01-01.\<close>

definition civilFromDays :: "int \<Rightarrow> int \<times> int \<times> int" where
  "civilFromDays days =
    (let z = days + 719468;
         era = z div 146097;
         doe = z mod 146097;
         yoe = (doe - doe div 1460 + doe div 36524 - doe div 146096) div 365;
         doy = doe - (365 * yoe + yoe div 4 - yoe div 100);
         mp = (5 * doy + 2) div 153;
         d = doy - (153 * mp + 2) div 5 + 1;
         m = (if mp < 10 then mp + 3 else mp - 9)
     in (yoe + era * 400 + (if m \<le> 2 then 1 else 0), m, d))"

definition DateFromTime :: "int \<Rightarrow> int" where
  "DateFromTime t = snd (snd (civilFromDays (Day t)))"

definition getDate :: "Host \<Rightarrow> int \<Rightarrow> int" where
  "getDate h t = DateFromTime (LocalTime h t)"

definition getDay :: "Host \<Rightarrow> int \<Rightarrow> int" where
  "getDay h t = WeekDay (LocalTime h t)"

text \<open>\<^verbatim>\<open>setDate(dt)\<close> computes
  \<^verbatim>\<open>MakeDate(MakeDay(YearFromTime(t), MonthFromTime(t), dt), TimeWithinDay(t))\<close> on the
  local time \<open>t\<close>. \<^verbatim>\<open>MakeDay\<close> of the year and month of \<open>t\<close> itself is the day
  number of the first day of that month plus \<open>dt - 1\<close>, and that first day is
  \<open>Day t - (DateFromTime t - 1)\<close>; a \<open>dt\<close> below 1 or beyond the month's length
  runs into the neighbouring months.\<close>

definition setDate :: "Host \<Rightarrow> int \<Rightarrow> int \<Rightarrow> int" where
  "setDate h t dt =
    (let lt = LocalTime h t
     in UTC h (MakeDate (Day lt - (DateFromTime lt - 1) + dt - 1) (TimeWithinDay lt)))"

definition setHours :: "Host \<Rightarrow> int \<Rightarrow> int \<Rightarrow> int \<Rightarrow> int \<Rightarrow> int \<Rightarrow> int" where
  "setHours h t hour minute sec ms =
    (let lt = LocalTime h t
     in UTC h (MakeDate (Day lt) (MakeTime hour minute sec ms)))"

text \<open>\<^verbatim>\<open>toISOString().split('T')[0]\<close>: the UTC calendar date, in four digits for the years
  0 to 9999 and in six signed digits otherwise.\<close>

fun pad :: "nat \<Rightarrow> int \<Rightarrow> string" where
  "pad 0 n = []"
| "pad (Suc k) n = pad k (n div 10) @ [''0123456789'' ! nat (n mod 10)]"

definition isoDate :: "int \<Rightarrow> string" where
  "isoDate t =
    (case civilFromDays (Day t) of (y, m, d) \<Rightarrow>
      (if 0 \<le> y \<and> y \<le> 9999 then pad 4 y
       else (if y < 0 then ''-'' else ''+'') @ pad 6 \<bar>y\<bar>)
      @ ''-'' @ pad 2 m @ ''-'' @ pad 2 d)"

section \<open>calculateWeeklyTrends\<close>

record WeekBucket =
  weekKey :: string
  weekStart :: int
  weekEnd :: int
  allCandidates :: "Candidate list"
  scoredCandidates :: "Candidate list"

text \<open>The body of the loop \<^verbatim>\<open>for (let i = 3; i >= 0; i--)\<close>: the bucket it pushes.\<close>

definition makeBucket :: "Host \<Rightarrow> int \<Rightarrow> int \<Rightarrow> WeekBucket" where
  "makeBucket h today i =
    (let weekStart1 = setDate h today (getDate h today - (i * 7));
         dayOfWeek = getDay h weekStart1;
         diff = getDate h weekStart1 - dayOfWeek + (if dayOfWeek = 0 then - 6 else 1);
         weekStart2 = setDate h weekStart1 diff;
         weekStart3 = setHours h weekStart2 0 0 0 0;
         weekEnd1 = setDate h weekStart3 (getDate h weekStart3 + 6);
         weekEnd2 = setHours h weekEnd1 23 59 59 999
     in \<lparr> weekKey = isoDate weekStart3, weekStart = weekStart3, weekEnd = weekEnd2,
          allCandidates = [], scoredCandidates = [] \<rparr>)"

definition weekBuckets :: "Host \<Rightarrow> int \<Rightarrow> WeekBucket list" where
  "weekBuckets h today = map (makeBucket h today) [3, 2, 1, 0]"

text \<open>\<^verbatim>\<open>weekBuckets.find(p)\<close> yields a reference to the first bucket that satisfies
  \<open>p\<close>, and the pushes that follow mutate that bucket in place; with no such bucket
  nothing happens. \<open>updateFirst p f\<close> is that update of the bucket list.\<close>

fun updateFirst :: "('a \<Rightarrow> bool) \<Rightarrow> ('a \<Rightarrow> 'a) \<Rightarrow> 'a list \<Rightarrow> 'a list" where
  "updateFirst p f [] = []"
| "updateFirst p f (b # bs) = (if p b then f b # bs else b # updateFirst p f bs)"

definition pushCandidate :: "Candidate \<Rightarrow> WeekBucket \<Rightarrow> WeekBucket" where
  "pushCandidate candidate bucket =
    (let bucket1 = bucket\<lparr> allCandidates := allCandidates bucket @ [candidate] \<rparr>
     in if aiScore candidate > 0 \<and> humanScore candidate > 0
        then bucket1\<lparr> scoredCandidates := scoredCandidates bucket1 @ [candidate] \<rparr>
        else bucket1)"

text \<open>The callback of \<^verbatim>\<open>allCandidates.forEach\<close>.\<close>

definition assignCandidate ::
  "(string \<Rightarrow> int option) \<Rightarrow> WeekBucket list \<Rightarrow> Candidate \<Rightarrow> WeekBucket list" where
  "assignCandidate parse buckets candidate =
    (case parse (dateAdded candidate) of
       None \<Rightarrow> buckets
     | Some candidateDate \<Rightarrow>
         updateFirst
           (\<lambda>bucket. candidateDate \<ge> weekStart bucket \<and> candidateDate \<le> weekEnd bucket)
           (pushCandidate candidate) buckets)"

text \<open>The week buckets once the \<^verbatim>\<open>forEach\<close> has run over the candidates with a
  truthy \<^verbatim>\<open>dateAdded\<close>.\<close>

definition assignedBuckets ::
  "(string \<Rightarrow> int option) \<Rightarrow> Host \<Rightarrow> int \<Rightarrow> Candidate list \<Rightarrow> WeekBucket list" where
  "assignedBuckets parse h today candidates =
    (let allCands = filter (\<lambda>candidate. dateAdded candidate \<noteq> []) candidates
     in foldl (assignCandidate parse) (weekBuckets h today) allCands)"

record WeeklyMetrics =
  week :: string
  date :: int
  totalCandidates :: nat
  scoredCandidates :: nat
  averageDiscrepancy :: rat
  averageAbsoluteDiscrepancy :: rat
  aiHigherCount :: nat
  humanHigherCount :: nat
  equalCount :: nat
  maxDiscrepancy :: rat
  minDiscrepancy :: rat
  aiAccuracy :: rat

text \<open>The callback of \<^verbatim>\<open>weekBuckets.map\<close>.\<close>

definition weekMetrics :: "WeekBucket \<Rightarrow> WeeklyMetrics" where
  "weekMetrics bucket =
    (let allCands = allCandidates bucket;
         scoredCands = WeekBucket.scoredCandidates bucket;
         ds = map (\<lambda>c. aiScore c - humanScore c) scoredCands;
         absDiscrepancies = map abs ds
     in \<lparr> week = weekKey bucket,
          date = weekStart bucket,
          totalCandidates = length allCands,
          scoredCandidates = length scoredCands,
          averageDiscrepancy =
            (if length ds > 0 then foldl (\<lambda>sum d. sum + d) 0 ds / of_nat (length ds) else 0),
          averageAbsoluteDiscrepancy =
            (if length absDiscrepancies > 0
             then foldl (\<lambda>sum d. sum + d) 0 absDiscrepancies / of_nat (length absDiscrepancies)
             else 0),
          aiHigherCount = length (filter (\<lambda>d. d > 0) ds),
          humanHigherCount = length (filter (\<lambda>d. d < 0) ds),
          equalCount = length (filter (\<lambda>d. d = 0) ds),
          maxDiscrepancy = (if length ds > 0 then Math_max ds else 0),
          minDiscrepancy = (if length ds > 0 then Math_min ds else 0),
          aiAccuracy =
            (if length ds > 0
             then of_nat (length (filter (\<lambda>d. \<bar>d\<bar> \<le> 1) ds)) / of_nat (length ds) * 100
             else 0) \<rparr>)"

definition calculateWeeklyTrends ::
  "(string \<Rightarrow> int option) \<Rightarrow> Host \<Rightarrow> int \<Rightarrow> Candidate list \<Rightarrow> WeeklyMetrics list" where
  "calculateWeeklyTrends parse h today candidates =
    map weekMetrics (assignedBuckets parse h today candidates)"

section \<open>Role breakdowns\<close>

text \<open>
  The two folds by role of the presentation code: \<^verbatim>\<open>roleAnalysis\<close> and
  \<^verbatim>\<open>roleData\<close> of \<^verbatim>\<open>RolePerformanceTab.tsx\<close>, \<^verbatim>\<open>roleQuality\<close> and
  \<^verbatim>\<open>roleQualityData\<close> of \<^verbatim>\<open>CandidateQualityTab.tsx\<close>. The accumulator object
  \<^verbatim>\<open>acc\<close> is an association list in insertion order, which is the order of
  \<^verbatim>\<open>Object.values\<close> for keys that are not array indices; a key is taken not to be the
  name of a member of \<^verbatim>\<open>Object.prototype\<close>, for which \<^verbatim>\<open>acc[role]\<close> would find
  the inherited member.
\<close>

text \<open>\<^verbatim>\<open>candidate.jobRole || candidate.role || 'No Role'\<close>\<close>

definition roleKey :: "Candidate \<Rightarrow> string" where
  "roleKey candidate =
    (if jobRole candidate \<noteq> [] then jobRole candidate
     else if Candidate.role candidate \<noteq> [] then Candidate.role candidate
     else ''No Role'')"

text \<open>\<^verbatim>\<open>counts[key] = (counts[key] || 0) + 1\<close>\<close>

definition increment :: "string \<Rightarrow> (string \<times> nat) list \<Rightarrow> (string \<times> nat) list" where
  "increment key counts =
    AList.update key ((case map_of counts key of None \<Rightarrow> 0 | Some n \<Rightarrow> n) + 1) counts"

subsection \<open>RolePerformanceTab\<close>

record RoleGroup =
  role :: string
  totalCandidates :: nat
  withBothScores :: nat
  aiProcessedCount :: nat
  humanProcessedCount :: nat
  avgAiScore :: rat
  avgHumanScore :: rat
  avgDiscrepancy :: rat
  aiScoreSum :: rat
  humanScoreSum :: rat
  discrepancySum :: rat
  sources :: "(string \<times> nat) list"
  statuses :: "(string \<times> nat) list"

text \<open>The object stored under a role seen for the first time.\<close>

definition newRoleGroup :: "string \<Rightarrow> RoleGroup" where
  "newRoleGroup r =
    \<lparr> role = r, totalCandidates = 0, withBothScores = 0, aiProcessedCount = 0,
      humanProcessedCount = 0, avgAiScore = 0, avgHumanScore = 0, avgDiscrepancy = 0,
      aiScoreSum = 0, humanScoreSum = 0, discrepancySum = 0, sources = [], statuses = [] \<rparr>"

text \<open>What the callback of \<^verbatim>\<open>candidates.reduce\<close> does to \<^verbatim>\<open>acc[role]\<close> after the
  lookup: the count, then the two \<^verbatim>\<open>return acc\<close> for a candidate without source or
  without status, then the score sums.\<close>

definition tallyCandidate :: "Candidate \<Rightarrow> RoleGroup \<Rightarrow> RoleGroup" where
  "tallyCandidate candidate g =
    (let g1 = g\<lparr> totalCandidates := totalCandidates g + 1 \<rparr>
     in if source candidate = [] then g1
        else
          (let g2 = g1\<lparr> sources := increment (source candidate) (sources g1) \<rparr>
           in if status candidate = [] then g2
              else
                (let g3 = g2\<lparr> statuses := increment (status candidate) (statuses g2) \<rparr>;
                     g4 = (if aiScore candidate > 0
                           then g3\<lparr> aiScoreSum := aiScoreSum g3 + aiScore candidate,
                                   aiProcessedCount := aiProcessedCount g3 + 1 \<rparr>
                           else g3);
                     g5 = (if humanScore candidate > 0
                           then g4\<lparr> humanScoreSum := humanScoreSum g4 + humanScore candidate,
                                   humanProcessedCount := humanProcessedCount g4 + 1 \<rparr>
                           else g4)
                 in if aiScore candidate > 0 \<and> humanScore candidate > 0
                    then g5\<lparr> withBothScores := withBothScores g5 + 1,
                            discrepancySum := discrepancySum g5
                              + (aiScore candidate - humanScore candidate) \<rparr>
                    else g5)))"

definition roleAnalysisStep ::
  "(string \<times> RoleGroup) list \<Rightarrow> Candidate \<Rightarrow> (string \<times> RoleGroup) list" where
  "roleAnalysisStep acc candidate =
    (let r = roleKey candidate;
         g = (case map_of acc r of None \<Rightarrow> newRoleGroup r | Some g \<Rightarrow> g)
     in AList.update r (tallyCandidate candidate g) acc)"

definition roleAnalysis :: "Candidate list \<Rightarrow> (string \<times> RoleGroup) list" where
  "roleAnalysis candidates = foldl roleAnalysisStep [] candidates"

record RoleRow = RoleGroup +
  aiProcessingRate :: rat
  humanReviewRate :: rat
  bothScoresCount :: nat
  topSource :: string

text \<open>\<^verbatim>\<open>Object.entries(role.sources).sort(([,a], [,b]) => b - a)[0]?.[0] || 'No Data'\<close>;
  the sort is stable.\<close>

definition topSourceOf :: "(string \<times> nat) list \<Rightarrow> string" where
  "topSourceOf counts =
    (case sort_key (\<lambda>entry. - int (snd entry)) counts of
       [] \<Rightarrow> ''No Data''
     | entry # _ \<Rightarrow> (if fst entry = [] then ''No Data'' else fst entry))"

text \<open>The callback of \<^verbatim>\<open>Object.values(roleAnalysis).map\<close>: the spread of the group,
  with the averages and rates written over it.\<close>

definition roleRow :: "RoleGroup \<Rightarrow> RoleRow" where
  "roleRow g =
    \<lparr> role = role g,
      totalCandidates = totalCandidates g,
      withBothScores = withBothScores g,
      aiProcessedCount = aiProcessedCount g,
      humanProcessedCount = humanProcessedCount g,
      avgAiScore =
        (if aiProcessedCount g > 0 then aiScoreSum g / of_nat (aiProcessedCount g) else 0),
      avgHumanScore =
        (if humanProcessedCount g > 0 then humanScoreSum g / of_nat (humanProcessedCount g)
         else 0),
      avgDiscrepancy =
        (if withBothScores g > 0 then discrepancySum g / of_nat (withBothScores g) else 0),
      aiScoreSum = aiScoreSum g,
      humanScoreSum = humanScoreSum g,
      discrepancySum = discrepancySum g,
      sources = sources g,
      statuses = statuses g,
      aiProcessingRate =
        (if totalCandidates g > 0
         then of_nat (aiProcessedCount g) / of_nat (totalCandidates g) * 100 else 0),
      humanReviewRate =
        (if aiProcessedCount g > 0
         then of_nat (withBothScores g) / of_nat (aiProcessedCount g) * 100 else 0),
      bothScoresCount = withBothScores g,
      topSource = topSourceOf (sources g) \<rparr>"

text \<open>\<^verbatim>\<open>.sort((a, b) => b.totalCandidates - a.totalCandidates)\<close>, stable.\<close>

definition roleData :: "Candidate list \<Rightarrow> RoleRow list" where
  "roleData candidates =
    sort_key (\<lambda>row. - int (totalCandidates row)) (map (roleRow \<circ> snd) (roleAnalysis candidates))"

subsection \<open>CandidateQualityTab\<close>

record QualityGroup =
  role :: string
  totalCandidates :: nat
  aiScoreSum :: rat
  humanScoreSum :: rat
  aiScoreCount :: nat
  humanScoreCount :: nat
  highQuality :: nat
  passedAi :: nat
  passedHuman :: nat
  passedBoth :: nat

definition newQualityGroup :: "string \<Rightarrow> QualityGroup" where
  "newQualityGroup r =
    \<lparr> role = r, totalCandidates = 0, aiScoreSum = 0, humanScoreSum = 0, aiScoreCount = 0,
      humanScoreCount = 0, highQuality = 0, passedAi = 0, passedHuman = 0, passedBoth = 0 \<rparr>"

definition tallyQuality :: "Candidate \<Rightarrow> QualityGroup \<Rightarrow> QualityGroup" where
  "tallyQuality candidate g =
    (let g1 = g\<lparr> totalCandidates := totalCandidates g + 1 \<rparr>;
         g2 = (if aiScore candidate > 0
               then g1\<lparr> aiScoreSum := aiScoreSum g1 + aiScore candidate,
                       aiScoreCount := aiScoreCount g1 + 1 \<rparr>
               else g1);
         g3 = (if humanScore candidate > 0
               then g2\<lparr> humanScoreSum := humanScoreSum g2 + humanScore candidate,
                       humanScoreCount := humanScoreCount g2 + 1 \<rparr>
               else g2);
         g4 = (if aiScore candidate \<ge> 7 then g3\<lparr> highQuality := highQuality g3 + 1 \<rparr> else g3);
         g5 = (if passedAiFilter candidate then g4\<lparr> passedAi := passedAi g4 + 1 \<rparr> else g4);
         g6 = (if passedHumanFilter candidate then g5\<lparr> passedHuman := passedHuman g5 + 1 \<rparr>
               else g5)
     in if passedAiFilter candidate \<and> passedHumanFilter candidate
        then g6\<lparr> passedBoth := passedBoth g6 + 1 \<rparr> else g6)"

definition roleQualityStep ::
  "(string \<times> QualityGroup) list \<Rightarrow> Candidate \<Rightarrow> (string \<times> QualityGroup) list" where
  "roleQualityStep acc candidate =
    (let r = roleKey candidate;
         g = (case map_of acc r of None \<Rightarrow> newQualityGroup r | Some g \<Rightarrow> g)
     in AList.update r (tallyQuality candidate g) acc)"

definition roleQuality :: "Candidate list \<Rightarrow> (string \<times> QualityGroup) list" where
  "roleQuality candidates = foldl roleQualityStep [] candidates"

record QualityRow = QualityGroup +
  avgAiScore :: rat
  avgHumanScore :: rat
  qualityRate :: rat
  aiFilterRate :: rat
  humanFilterRate :: rat
  bothFiltersRate :: rat

definition qualityRow :: "QualityGroup \<Rightarrow> QualityRow" where
  "qualityRow g =
    \<lparr> role = role g,
      totalCandidates = totalCandidates g,
      aiScoreSum = aiScoreSum g,
      humanScoreSum = humanScoreSum g,
      aiScoreCount = aiScoreCount g,
      humanScoreCount = humanScoreCount g,
      highQuality = highQuality g,
      passedAi = passedAi g,
      passedHuman = passedHuman g,
      passedBoth = passedBoth g,
      avgAiScore = (if aiScoreCount g > 0 then aiScoreSum g / of_nat (aiScoreCount g) else 0),
      avgHumanScore =
        (if humanScoreCount g > 0 then humanScoreSum g / of_nat (humanScoreCount g) else 0),
      qualityRate =
        (if totalCandidates g > 0
         then of_nat (highQuality g) / of_nat (totalCandidates g) * 100 else 0),
      aiFilterRate =
        (if totalCandidates g > 0
         then of_nat (passedAi g) / of_nat (totalCandidates g) * 100 else 0),
      humanFilterRate =
        (if totalCandidates g > 0
         then of_nat (passedHuman g) / of_nat (totalCandidates g) * 100 else 0),
      bothFiltersRate =
        (if totalCandidates g > 0
         then of_nat (passedBoth g) / of_nat (totalCandidates g) * 100 else 0) \<rparr>"

definition roleQualityData :: "Candidate list \<Rightarrow> QualityRow list" where
  "roleQualityData candidates = map (qualityRow \<circ> snd) (roleQuality candidates)"

section \<open>Notions used to state the properties\<close>

text \<open>The day number, in local time, of the Monday that starts the week of \<open>today\<close>
  (Sunday counts as the last day of a week).\<close>

definition mondayOf :: "Host \<Rightarrow> int \<Rightarrow> int" where
  "mondayOf h today = Day (LocalTime h today) - (Day (LocalTime h today) + 3) mod 7"

text \<open>The candidate's \<^verbatim>\<open>dateAdded\<close> parses to a date inside the bucket's window, both
  ends included: the test of the \<^verbatim>\<open>find\<close> callback.\<close>

definition fallsIn :: "(string \<Rightarrow> int option) \<Rightarrow> Candidate \<Rightarrow> WeekBucket \<Rightarrow> bool" where
  "fallsIn parse candidate bucket =
    (case parse (dateAdded candidate) of
       None \<Rightarrow> False
     | Some candidateDate \<Rightarrow>
         candidateDate \<ge> weekStart bucket \<and> candidateDate \<le> weekEnd bucket)"

text \<open>The position of the bucket that \<^verbatim>\<open>find\<close> returns for a candidate: the first
  one whose window holds the candidate's date, if any.\<close>

fun firstTrue :: "bool list \<Rightarrow> nat option" where
  "firstTrue [] = None"
| "firstTrue (x # xs) = (if x then Some 0 else map_option Suc (firstTrue xs))"

definition firstBucket :: "(string \<Rightarrow> int option) \<Rightarrow> WeekBucket list \<Rightarrow> Candidate \<Rightarrow> nat option" where
  "firstBucket parse bs candidate = firstTrue (map (fallsIn parse candidate) bs)"

subsection \<open>Conditions on the host's time zone\<close>

text \<open>Interpreting a local time and reading the instant back gives a time of the same
  calendar day: no clock change skips over a midnight.\<close>

definition keepsDay :: "Host \<Rightarrow> bool" where
  "keepsDay h \<longleftrightarrow> (\<forall>t. Day (LocalTime h (UTC h t)) = Day t)"

text \<open>Local time is less than a day away from UTC.\<close>

definition offsetsWithinADay :: "Host \<Rightarrow> bool" where
  "offsetsWithinADay h \<longleftrightarrow> (\<forall>t. \<bar>localOffset h t\<bar> < msPerDay)"

text \<open>The clock does not change at the midnight that starts a Monday: the last
  millisecond of the Sunday and the first of the Monday read back as written, and they
  are consecutive instants.\<close>

definition steadyAtMonday :: "Host \<Rightarrow> bool" where
  "steadyAtMonday h \<longleftrightarrow>
    (\<forall>d. WeekDay (d * msPerDay) = 1 \<longrightarrow>
       LocalTime h (UTC h (d * msPerDay)) = d * msPerDay
       \<and> LocalTime h (UTC h (d * msPerDay - 1)) = d * msPerDay - 1
       \<and> UTC h (d * msPerDay) = UTC h (d * msPerDay - 1) + 1)"

subsection \<open>Concrete hosts and inputs\<close>

text \<open>A host whose clock is put forward once: the offset is \<open>wasOffset\<close> up to the
  instant \<open>switch\<close> and \<open>isOffset\<close> from it on; the local times skipped by the change
  are interpreted with \<open>wasOffset\<close>.\<close>

definition springForward :: "int \<Rightarrow> int \<Rightarrow> int \<Rightarrow> Host" where
  "springForward switch wasOffset isOffset =
    \<lparr> utcOffset = (\<lambda>t. if t < switch then wasOffset else isOffset),
      localOffset = (\<lambda>t. if t < switch + isOffset then wasOffset else isOffset) \<rparr>"

text \<open>America/New\_York around its change to daylight time on Sunday 10 March 2024 at
  07:00 UTC (02:00 local, from UTC-5 to UTC-4); the reference date is that Sunday at
  20:00 UTC.\<close>

definition newYork :: Host where
  "newYork = springForward 1710054000000 (- 18000000) (- 14400000)"

definition sampleToday :: int where
  "sampleToday = 1710100800000"

text \<open>Asia/Tehran around its change to daylight time of 2021, at the midnight that
  started Monday 22 March (21 March 20:30 UTC, from UTC+3:30 to UTC+4:30); the reference
  date is Wednesday 24 March 2021 at 12:00 UTC.\<close>

definition tehran :: Host where
  "tehran = springForward 1616358600000 12600000 16200000"

definition tehranToday :: int where
  "tehranToday = 1616587200000"

text \<open>A host parser restricted to the few strings used.\<close>

definition sampleParse :: "string \<Rightarrow> int option" where
  "sampleParse =
    map_of [(''2024-03-03T23:59:59.999-05:00'', 1709528399999),
            (''2024-03-04T00:00:00.000-05:00'', 1709528400000),
            (''2024-03-10T23:59:59.999-04:00'', 1710129599999),
            (''2024-01-01T00:00:00.000-05:00'', 1704085200000)]"

definition dated :: "string \<Rightarrow> rat \<Rightarrow> rat \<Rightarrow> Candidate" where
  "dated d ai human = (scoresOnly ai human)\<lparr> dateAdded := d \<rparr>"

text \<open>Concrete inputs for the role breakdowns: a candidate for the role
  \<open>AI Engineer\<close> with the given source, status and scores.\<close>

definition engineer :: "string \<Rightarrow> string \<Rightarrow> rat \<Rightarrow> rat \<Rightarrow> Candidate" where
  "engineer src st ai human =
    (scoresOnly ai human)\<lparr> jobRole := ''AI Engineer'', source := src, status := st \<rparr>"

section \<open>Properties of calculateScoreDiscrepancy\<close>

lemma sign_partition:
  fixes ds :: "rat list"
  shows "length (filter (\<lambda>d. d > 0) ds) + length (filter (\<lambda>d. d < 0) ds)
         + length (filter (\<lambda>d. d = 0) ds) = length ds"
  by (induction ds) auto

lemma filter_scored_conv:
  "filter (\<lambda>candidate. aiScore candidate > 0 \<and> humanScore candidate > 0) cs
   = filter hasBothScores cs"
  by (simp add: hasBothScores_def [abs_def])

text \<open>
  Claim C2. On the list \<open>[{ai:8,human:6}, {ai:4,human:7}, {ai:9,human:9}, {ai:3,human:0}]\<close>
  the records with both scores positive are the first three, their signed discrepancies are
  \<open>[2, -3, 0]\<close>, and the summary has mean \<open>-1/3\<close>, maximum 2, minimum \<open>-3\<close>, one record
  in each sign class and a total of 3; dropping the unscored fourth record changes nothing.
\<close>

theorem C2_spec_example:
  "filter hasBothScores specExample = take 3 specExample
   \<and> map (\<lambda>c. aiScore c - humanScore c) (filter hasBothScores specExample) = [2, - 3, 0]
   \<and> ScoreAnalysis.averageDiscrepancy (calculateScoreDiscrepancy specExample) = - 1 / 3
   \<and> ScoreAnalysis.maxDiscrepancy (calculateScoreDiscrepancy specExample) = 2
   \<and> ScoreAnalysis.minDiscrepancy (calculateScoreDiscrepancy specExample) = - 3
   \<and> ScoreAnalysis.aiHigherCount (calculateScoreDiscrepancy specExample) = 1
   \<and> ScoreAnalysis.humanHigherCount (calculateScoreDiscrepancy specExample) = 1
   \<and> ScoreAnalysis.equalScoresCount (calculateScoreDiscrepancy specExample) = 1
   \<and> ScoreAnalysis.totalCandidates (calculateScoreDiscrepancy specExample) = 3
   \<and> calculateScoreDiscrepancy (take 3 specExample) = calculateScoreDiscrepancy specExample"
  by (simp add: specExample_def scoresOnly_def hasBothScores_def calculateScoreDiscrepancy_def)

text \<open>
  Claim C3. When no record of the input has both scores positive (the empty list
  included), the summary has every numeric field zero. The function has no failing
  branch: it returns a summary on every list.
\<close>

theorem C3_no_scored_all_zero:
  assumes "\<forall>c \<in> set candidates. \<not> hasBothScores c"
  shows "ScoreAnalysis.averageDiscrepancy (calculateScoreDiscrepancy candidates) = 0
       \<and> ScoreAnalysis.maxDiscrepancy (calculateScoreDiscrepancy candidates) = 0
       \<and> ScoreAnalysis.minDiscrepancy (calculateScoreDiscrepancy candidates) = 0
       \<and> ScoreAnalysis.totalCandidates (calculateScoreDiscrepancy candidates) = 0
       \<and> ScoreAnalysis.aiHigherCount (calculateScoreDiscrepancy candidates) = 0
       \<and> ScoreAnalysis.humanHigherCount (calculateScoreDiscrepancy candidates) = 0
       \<and> ScoreAnalysis.equalScoresCount (calculateScoreDiscrepancy candidates) = 0"
proof -
  from assms have "filter hasBothScores candidates = []"
    by (simp add: filter_empty_conv)
  then show ?thesis
    by (simp add: calculateScoreDiscrepancy_def filter_scored_conv)
qed

theorem C3_no_scored_all_zero_witness:
  "\<not> hasBothScores (scoresOnly 3 0) \<and> \<not> hasBothScores (scoresOnly 0 5)
   \<and> ScoreAnalysis.averageDiscrepancy (calculateScoreDiscrepancy [scoresOnly 3 0, scoresOnly 0 5]) = 0
   \<and> ScoreAnalysis.totalCandidates (calculateScoreDiscrepancy [scoresOnly 3 0, scoresOnly 0 5]) = 0
   \<and> ScoreAnalysis.maxDiscrepancy (calculateScoreDiscrepancy []) = 0
   \<and> ScoreAnalysis.minDiscrepancy (calculateScoreDiscrepancy []) = 0"
proof -
  have h1: "\<forall>c \<in> set [scoresOnly 3 0, scoresOnly 0 5]. \<not> hasBothScores c"
    by (simp add: scoresOnly_def hasBothScores_def)
  have h2: "\<forall>c \<in> set []. \<not> hasBothScores c"
    by simp
  show ?thesis
    using h1 C3_no_scored_all_zero [OF h1] C3_no_scored_all_zero [OF h2] by simp
qed

text \<open>
  Claim C5. For every input list, the three sign counts of the summary add up to its
  \<open>totalCandidates\<close>.
\<close>

theorem C5_counts_partition:
  "ScoreAnalysis.aiHigherCount (calculateScoreDiscrepancy candidates)
   + ScoreAnalysis.humanHigherCount (calculateScoreDiscrepancy candidates)
   + ScoreAnalysis.equalScoresCount (calculateScoreDiscrepancy candidates)
   = ScoreAnalysis.totalCandidates (calculateScoreDiscrepancy candidates)"
proof (cases "filter hasBothScores candidates = []")
  case True
  then show ?thesis
    by (simp add: calculateScoreDiscrepancy_def filter_scored_conv)
next
  case False
  then show ?thesis
    using sign_partition [of "map (\<lambda>c. aiScore c - humanScore c) (filter hasBothScores candidates)"]
    by (simp add: calculateScoreDiscrepancy_def filter_scored_conv Let_def)
qed

theorem C5_counts_partition_witness:
  "ScoreAnalysis.aiHigherCount (calculateScoreDiscrepancy [scoresOnly 8 6, scoresOnly 6 8, scoresOnly 5 0])
   + ScoreAnalysis.humanHigherCount (calculateScoreDiscrepancy [scoresOnly 8 6, scoresOnly 6 8, scoresOnly 5 0])
   + ScoreAnalysis.equalScoresCount (calculateScoreDiscrepancy [scoresOnly 8 6, scoresOnly 6 8, scoresOnly 5 0])
   = ScoreAnalysis.totalCandidates (calculateScoreDiscrepancy [scoresOnly 8 6, scoresOnly 6 8, scoresOnly 5 0])
   \<and> ScoreAnalysis.totalCandidates (calculateScoreDiscrepancy [scoresOnly 8 6, scoresOnly 6 8, scoresOnly 5 0]) = 2"
  using C5_counts_partition [of "[scoresOnly 8 6, scoresOnly 6 8, scoresOnly 5 0]"]
  by (simp add: scoresOnly_def calculateScoreDiscrepancy_def)

text \<open>
  Claim C10. When some input record has both scores positive, the returned object
  carries a \<open>discrepancies\<close> property: the absolute values of the signed discrepancies
  of the scored records, in input order. When no record has both scores positive the
  returned object has no such property.
\<close>

theorem C10_discrepancies_field:
  "((\<exists>c \<in> set candidates. hasBothScores c) \<longrightarrow>
      ScoreAnalysis.discrepancies (calculateScoreDiscrepancy candidates)
      = Some (map (\<lambda>c. \<bar>aiScore c - humanScore c\<bar>) (filter hasBothScores candidates)))
   \<and> (\<not> (\<exists>c \<in> set candidates. hasBothScores c) \<longrightarrow>
      ScoreAnalysis.discrepancies (calculateScoreDiscrepancy candidates) = None)"
proof (cases "filter hasBothScores candidates = []")
  case True
  then have "\<not> (\<exists>c \<in> set candidates. hasBothScores c)"
    by (simp add: filter_empty_conv)
  with True show ?thesis
    by (simp add: calculateScoreDiscrepancy_def filter_scored_conv)
next
  case False
  then have "\<exists>c \<in> set candidates. hasBothScores c"
    by (simp add: filter_empty_conv)
  with False show ?thesis
    by (simp add: calculateScoreDiscrepancy_def filter_scored_conv Let_def comp_def)
qed

theorem C10_discrepancies_field_witness:
  "(\<exists>c \<in> set specExample. hasBothScores c)
   \<and> ScoreAnalysis.discrepancies (calculateScoreDiscrepancy specExample) = Some [2, 3, 0]
   \<and> \<not> (\<exists>c \<in> set [scoresOnly 3 0]. hasBothScores c)
   \<and> ScoreAnalysis.discrepancies (calculateScoreDiscrepancy [scoresOnly 3 0]) = None"
proof -
  have h1: "\<exists>c \<in> set specExample. hasBothScores c"
    by (simp add: specExample_def scoresOnly_def hasBothScores_def)
  have h2: "\<not> (\<exists>c \<in> set [scoresOnly 3 0]. hasBothScores c)"
    by (simp add: scoresOnly_def hasBothScores_def)
  show ?thesis
    using h1 h2 C10_discrepancies_field [of specExample]
      C10_discrepancies_field [of "[scoresOnly 3 0]"]
    by (simp add: specExample_def scoresOnly_def hasBothScores_def)
qed

section \<open>Week windows\<close>

lemma msPerDay_pos: "0 < msPerDay"
  by (simp add: msPerDay_def)

lemma Day_add_days: "Day (t + k * msPerDay) = Day t + k"
  using msPerDay_pos by (simp add: Day_def)

lemma Day_days: "Day (k * msPerDay) = k"
  using msPerDay_pos by (simp add: Day_def)

lemma Day_last_ms: "Day (k * msPerDay + MakeTime 23 59 59 999) = k"
proof -
  have "(k * msPerDay + 86399999) div msPerDay = k"
    unfolding msPerDay_def by linarith
  then show ?thesis
    by (simp add: Day_def MakeTime_def)
qed

lemma setDate_eq: "setDate h t dt = UTC h (LocalTime h t + (dt - getDate h t) * msPerDay)"
proof -
  define lt where "lt = LocalTime h t"
  have "lt div msPerDay * msPerDay + lt mod msPerDay = lt"
    by simp
  then have "MakeDate (Day lt - (DateFromTime lt - 1) + dt - 1) (TimeWithinDay lt)
             = lt + (dt - DateFromTime lt) * msPerDay"
    unfolding MakeDate_def Day_def TimeWithinDay_def by (simp add: algebra_simps)
  then show ?thesis
    by (simp add: setDate_def getDate_def Let_def lt_def)
qed

lemma setHours_eq:
  "setHours h t hh mm ss ms = UTC h (Day (LocalTime h t) * msPerDay + MakeTime hh mm ss ms)"
  by (simp add: setHours_def Let_def MakeDate_def)

lemma keepsDayD: "keepsDay h \<Longrightarrow> Day (LocalTime h (UTC h t)) = Day t"
  by (simp add: keepsDay_def)

lemma raw_weekStart:
  "weekStart (makeBucket h today i) =
    setHours h (setDate h (setDate h today (getDate h today - (i * 7)))
      (getDate h (setDate h today (getDate h today - (i * 7)))
        - getDay h (setDate h today (getDate h today - (i * 7)))
        + (if getDay h (setDate h today (getDate h today - (i * 7))) = 0 then - 6 else 1))) 0 0 0 0"
  unfolding makeBucket_def Let_def by (rule WeekBucket.select_convs)

lemma raw_weekEnd:
  "weekEnd (makeBucket h today i) =
    setHours h (setDate h (weekStart (makeBucket h today i))
       (getDate h (weekStart (makeBucket h today i)) + 6)) 23 59 59 999"
  unfolding raw_weekStart unfolding makeBucket_def Let_def by (rule WeekBucket.select_convs)

lemma roll_back:
  fixes d :: int
  shows "(if (d + 4) mod 7 = 0 then - 6 else 1) - (d + 4) mod 7 = - ((d + 3) mod 7)"
proof -
  define r where "r = (d + 3) mod 7"
  have r: "0 \<le> r" "r < 7"
    by (simp_all add: r_def)
  have "(d + 4) mod 7 = (r + 1) mod 7"
    by (simp add: r_def mod_simps add.commute)
  moreover have "(if (r + 1) mod 7 = 0 then - 6 else 1) - (r + 1) mod 7 = - r"
  proof (cases "r = 6")
    case True
    then show ?thesis by simp
  next
    case False
    with r have "(r + 1) mod 7 = r + 1" by simp
    with r show ?thesis by simp
  qed
  ultimately show ?thesis
    by (simp add: r_def)
qed

lemma weekday_shift:
  fixes d :: int
  shows "(d - i * 7 + 4) mod 7 = (d + 4) mod 7"
proof -
  have "d - i * 7 + 4 = (d + 4) + 7 * (- i)"
    by simp
  then show ?thesis
    by (simp only: mod_mult_self2)
qed

lemma mondayOf_alt: "mondayOf h today = 7 * ((Day (LocalTime h today) + 3) div 7) - 3"
  using minus_mod_eq_mult_div [of "Day (LocalTime h today) + 3" 7] by (simp add: mondayOf_def)

lemma mondayOf_weekday: "(mondayOf h today - 7 * i + 4) mod 7 = 1"
proof -
  have "mondayOf h today - 7 * i + 4 = 1 + 7 * ((Day (LocalTime h today) + 3) div 7 - i)"
    by (simp add: mondayOf_alt algebra_simps)
  then show ?thesis
    by (simp only: mod_mult_self2) simp
qed

lemma mondayOf_range:
  "mondayOf h today \<le> Day (LocalTime h today) \<and> Day (LocalTime h today) \<le> mondayOf h today + 6"
proof -
  have "0 \<le> (Day (LocalTime h today) + 3) mod 7" "(Day (LocalTime h today) + 3) mod 7 < 7"
    by simp_all
  then show ?thesis
    unfolding mondayOf_def by linarith
qed

text \<open>On a host that keeps the day, the window of week \<open>i\<close> runs from the instant of
  its Monday's local midnight to the instant of the last local millisecond of its Sunday.\<close>

lemma makeBucket_weekStart:
  assumes "keepsDay h"
  shows "weekStart (makeBucket h today i) = UTC h ((mondayOf h today - 7 * i) * msPerDay)"
proof -
  define lt where "lt = LocalTime h today"
  define s where "s = setDate h today (getDate h today - i * 7)"
  have s: "s = UTC h (lt + (- (i * 7)) * msPerDay)"
    unfolding s_def setDate_eq lt_def by simp
  have day_s: "Day (LocalTime h s) = Day lt - i * 7"
    unfolding s keepsDayD [OF assms] Day_add_days by simp
  define wd where "wd = getDay h s"
  have wd: "wd = (Day lt + 4) mod 7"
    unfolding wd_def getDay_def WeekDay_def day_s by (rule weekday_shift)
  have roll: "(if wd = 0 then - 6 else 1) - wd = - ((Day lt + 3) mod 7)"
    unfolding wd by (rule roll_back)
  define s2 where "s2 = setDate h s (getDate h s - wd + (if wd = 0 then - 6 else 1))"
  have "getDate h s - wd + (if wd = 0 then - 6 else 1) - getDate h s = - ((Day lt + 3) mod 7)"
    using roll by simp
  then have s2: "s2 = UTC h (LocalTime h s + (- ((Day lt + 3) mod 7)) * msPerDay)"
    unfolding s2_def setDate_eq by simp
  have day_s2: "Day (LocalTime h s2) = mondayOf h today - 7 * i"
    unfolding s2 keepsDayD [OF assms] Day_add_days day_s
    by (simp add: mondayOf_def lt_def)
  have "weekStart (makeBucket h today i) = setHours h s2 0 0 0 0"
    unfolding raw_weekStart s_def s2_def wd_def ..
  then show ?thesis
    by (simp add: setHours_eq day_s2 MakeTime_def)
qed

lemma makeBucket_weekEnd:
  assumes "keepsDay h"
  shows "weekEnd (makeBucket h today i) = UTC h ((mondayOf h today - 7 * i + 7) * msPerDay - 1)"
proof -
  define m where "m = mondayOf h today - 7 * i"
  define ws where "ws = weekStart (makeBucket h today i)"
  have ws: "ws = UTC h (m * msPerDay)"
    by (simp add: ws_def m_def makeBucket_weekStart [OF assms])
  have day_ws: "Day (LocalTime h ws) = m"
    unfolding ws keepsDayD [OF assms] by (rule Day_days)
  define e1 where "e1 = setDate h ws (getDate h ws + 6)"
  have e1: "e1 = UTC h (LocalTime h ws + 6 * msPerDay)"
    unfolding e1_def setDate_eq by simp
  have day_e1: "Day (LocalTime h e1) = m + 6"
    unfolding e1 keepsDayD [OF assms] Day_add_days day_ws ..
  have "weekEnd (makeBucket h today i) = setHours h e1 23 59 59 999"
    unfolding raw_weekEnd e1_def ws_def ..
  also have "\<dots> = UTC h ((m + 6) * msPerDay + MakeTime 23 59 59 999)"
    by (simp add: setHours_eq day_e1)
  also have "(m + 6) * msPerDay + MakeTime 23 59 59 999 = (m + 7) * msPerDay - 1"
    by (simp add: MakeTime_def msPerDay_def algebra_simps)
  finally show ?thesis
    by (simp add: m_def)
qed

lemma length_weekBuckets: "length (weekBuckets h today) = 4"
  by (simp add: weekBuckets_def)


lemma makeBucket_empty:
  "allCandidates (makeBucket h today i) = []"
  "WeekBucket.scoredCandidates (makeBucket h today i) = []"
  unfolding makeBucket_def Let_def by simp_all

lemma weekBuckets_empty:
  "b \<in> set (weekBuckets h today) \<Longrightarrow> allCandidates b = [] \<and> WeekBucket.scoredCandidates b = []"
  by (auto simp add: weekBuckets_def makeBucket_empty)

text \<open>With offsets of less than a day, the instant of a local time lies within a day
  of it.\<close>

lemma UTC_bounds:
  assumes "offsetsWithinADay h"
  shows "t - msPerDay < UTC h t" and "UTC h t < t + msPerDay"
proof -
  have "\<bar>localOffset h t\<bar> < msPerDay"
    using assms by (simp add: offsetsWithinADay_def)
  then show "t - msPerDay < UTC h t" and "UTC h t < t + msPerDay"
    by (simp_all add: UTC_def abs_less_iff)
qed

lemma window_bounds:
  assumes "keepsDay h" and "offsetsWithinADay h"
  shows "weekStart (makeBucket h today i) < (mondayOf h today - 7 * i + 1) * msPerDay"
    and "(mondayOf h today - 7 * i + 6) * msPerDay \<le> weekEnd (makeBucket h today i)"
    and "weekEnd (makeBucket h today i) < (mondayOf h today - 7 * i + 8) * msPerDay"
proof -
  define m where "m = mondayOf h today - 7 * i"
  have "UTC h (m * msPerDay) < m * msPerDay + msPerDay"
    by (rule UTC_bounds [OF assms(2)])
  then show "weekStart (makeBucket h today i) < (mondayOf h today - 7 * i + 1) * msPerDay"
    by (simp add: makeBucket_weekStart [OF assms(1)] m_def algebra_simps)
  have "(m + 7) * msPerDay - 1 - msPerDay < UTC h ((m + 7) * msPerDay - 1)"
    and "UTC h ((m + 7) * msPerDay - 1) < (m + 7) * msPerDay - 1 + msPerDay"
    by (rule UTC_bounds [OF assms(2)])+
  then show "(mondayOf h today - 7 * i + 6) * msPerDay \<le> weekEnd (makeBucket h today i)"
    and "weekEnd (makeBucket h today i) < (mondayOf h today - 7 * i + 8) * msPerDay"
    by (simp_all add: makeBucket_weekEnd [OF assms(1)] m_def algebra_simps)
qed

section \<open>Assignment to buckets\<close>

lemma length_updateFirst: "length (updateFirst p f bs) = length bs"
  by (induction bs) simp_all

lemma map_updateFirst:
  assumes "\<And>b. g (f b) = g b"
  shows "map g (updateFirst p f bs) = map g bs"
  by (induction bs) (simp_all add: assms)

lemma updateFirst_none: "\<forall>b \<in> set bs. \<not> p b \<Longrightarrow> updateFirst p f bs = bs"
  by (induction bs) simp_all

lemma firstTrue_None: "firstTrue xs = None \<longleftrightarrow> (\<forall>x \<in> set xs. \<not> x)"
  by (induction xs) auto


lemma updateFirst_nth:
  assumes "j < length bs"
  shows "updateFirst p f bs ! j = (if firstTrue (map p bs) = Some j then f (bs ! j) else bs ! j)"
  using assms
proof (induction bs arbitrary: j)
  case Nil
  then show ?case by simp
next
  case (Cons b bs)
  show ?case
  proof (cases "p b")
    case True
    then show ?thesis by (cases j) simp_all
  next
    case False
    show ?thesis
    proof (cases j)
      case 0
      with False show ?thesis by auto
    next
      case (Suc n)
      with Cons.prems have "n < length bs" by simp
      from Cons.IH [OF this] False Suc show ?thesis by auto
    qed
  qed
qed

lemma pushCandidate_sel:
  "weekStart (pushCandidate c b) = weekStart b"
  "weekEnd (pushCandidate c b) = weekEnd b"
  "weekKey (pushCandidate c b) = weekKey b"
  "allCandidates (pushCandidate c b) = allCandidates b @ [c]"
  "WeekBucket.scoredCandidates (pushCandidate c b)
   = WeekBucket.scoredCandidates b @ (if hasBothScores c then [c] else [])"
  by (simp_all add: pushCandidate_def hasBothScores_def Let_def)

lemma length_assignCandidate: "length (assignCandidate parse bs c) = length bs"
  by (simp add: assignCandidate_def length_updateFirst split: option.split)

lemma length_foldl_assign: "length (foldl (assignCandidate parse) bs cs) = length bs"
  by (induction cs arbitrary: bs) (simp_all add: length_assignCandidate)

lemma assignCandidate_windows:
  "map weekStart (assignCandidate parse bs c) = map weekStart bs"
  "map weekEnd (assignCandidate parse bs c) = map weekEnd bs"
  "map weekKey (assignCandidate parse bs c) = map weekKey bs"
  by (simp_all add: assignCandidate_def map_updateFirst pushCandidate_sel split: option.split)

lemma foldl_assign_windows:
  "map weekStart (foldl (assignCandidate parse) bs cs) = map weekStart bs"
  "map weekEnd (foldl (assignCandidate parse) bs cs) = map weekEnd bs"
  "map weekKey (foldl (assignCandidate parse) bs cs) = map weekKey bs"
  by (induction cs arbitrary: bs) (simp_all add: assignCandidate_windows)

lemma fallsIn_map:
  "map (fallsIn parse c) bs
   = map (\<lambda>w. case parse (dateAdded c) of None \<Rightarrow> False | Some d \<Rightarrow> fst w \<le> d \<and> d \<le> snd w)
       (zip (map weekStart bs) (map weekEnd bs))"
  by (induction bs) (simp_all add: fallsIn_def split: option.split)

lemma firstBucket_foldl_assign:
  "firstBucket parse (foldl (assignCandidate parse) bs cs) c = firstBucket parse bs c"
  by (simp add: firstBucket_def fallsIn_map foldl_assign_windows)

lemma assignCandidate_nth:
  assumes "j < length bs"
  shows "assignCandidate parse bs c ! j
         = (if firstBucket parse bs c = Some j then pushCandidate c (bs ! j) else bs ! j)"
proof (cases "parse (dateAdded c)")
  case None
  then have "\<forall>x \<in> set (map (fallsIn parse c) bs). \<not> x"
    by (simp add: fallsIn_def)
  then have "firstBucket parse bs c = None"
    unfolding firstBucket_def firstTrue_None .
  with None show ?thesis
    by (simp add: assignCandidate_def)
next
  case (Some d)
  then have eq: "(\<lambda>bucket. weekStart bucket \<le> d \<and> d \<le> weekEnd bucket) = fallsIn parse c"
    by (intro ext) (simp add: fallsIn_def)
  have "assignCandidate parse bs c = updateFirst (fallsIn parse c) (pushCandidate c) bs"
    by (simp add: assignCandidate_def Some eq)
  then show ?thesis
    by (simp add: updateFirst_nth [OF assms] firstBucket_def)
qed

lemma assignCandidate_unmatched:
  assumes "firstBucket parse bs c = None"
  shows "assignCandidate parse bs c = bs"
proof (cases "parse (dateAdded c)")
  case None
  then show ?thesis by (simp add: assignCandidate_def)
next
  case (Some d)
  from assms have "\<forall>b \<in> set bs. \<not> fallsIn parse c b"
    by (simp add: firstBucket_def firstTrue_None)
  with Some have "\<forall>b \<in> set bs. \<not> (weekStart b \<le> d \<and> d \<le> weekEnd b)"
    by (simp add: fallsIn_def)
  with Some show ?thesis
    by (simp add: assignCandidate_def updateFirst_none)
qed

text \<open>After the \<^verbatim>\<open>forEach\<close>, bucket \<open>j\<close> holds, in input order, the candidates for
  which \<^verbatim>\<open>find\<close> returned it.\<close>

lemma foldl_assign_nth:
  assumes "j < length bs"
  shows "allCandidates (foldl (assignCandidate parse) bs cs ! j)
         = allCandidates (bs ! j) @ filter (\<lambda>c. firstBucket parse bs c = Some j) cs
       \<and> WeekBucket.scoredCandidates (foldl (assignCandidate parse) bs cs ! j)
         = WeekBucket.scoredCandidates (bs ! j)
           @ filter (\<lambda>c. firstBucket parse bs c = Some j \<and> hasBothScores c) cs"
proof (induction cs rule: rev_induct)
  case Nil
  then show ?case by simp
next
  case (snoc c cs)
  have len: "j < length (foldl (assignCandidate parse) bs cs)"
    using assms by (simp add: length_foldl_assign)
  show ?case
    using snoc.IH
    by (simp add: assignCandidate_nth [OF len] firstBucket_foldl_assign pushCandidate_sel)
qed

lemma assignedBuckets_nth:
  assumes "j < 4"
  shows "allCandidates (assignedBuckets parse h today candidates ! j)
         = filter (\<lambda>c. dateAdded c \<noteq> [] \<and> firstBucket parse (weekBuckets h today) c = Some j)
             candidates"
    and "WeekBucket.scoredCandidates (assignedBuckets parse h today candidates ! j)
         = filter hasBothScores (allCandidates (assignedBuckets parse h today candidates ! j))"
proof -
  let ?bs = "weekBuckets h today"
  have j: "j < length ?bs"
    using assms by (simp add: length_weekBuckets)
  then have "?bs ! j \<in> set ?bs"
    by simp
  then have empty: "allCandidates (?bs ! j) = []" "WeekBucket.scoredCandidates (?bs ! j) = []"
    by (simp_all add: weekBuckets_empty)
  note nth = foldl_assign_nth [OF j, of parse "filter (\<lambda>c. dateAdded c \<noteq> []) candidates"]
  show "allCandidates (assignedBuckets parse h today candidates ! j)
         = filter (\<lambda>c. dateAdded c \<noteq> [] \<and> firstBucket parse ?bs c = Some j) candidates"
    using nth by (simp add: assignedBuckets_def empty)
  show "WeekBucket.scoredCandidates (assignedBuckets parse h today candidates ! j)
         = filter hasBothScores (allCandidates (assignedBuckets parse h today candidates ! j))"
    using nth by (simp add: assignedBuckets_def empty)
qed

lemma length_assignedBuckets: "length (assignedBuckets parse h today candidates) = 4"
  by (simp add: assignedBuckets_def length_foldl_assign length_weekBuckets)

lemma weekMetrics_counts:
  "WeeklyMetrics.totalCandidates (weekMetrics b) = length (allCandidates b)"
  "WeeklyMetrics.scoredCandidates (weekMetrics b) = length (WeekBucket.scoredCandidates b)"
  by (simp_all add: weekMetrics_def Let_def)

section \<open>The sample hosts and inputs\<close>

lemma LocalTime_springForward:
  "LocalTime (springForward switch wasOffset isOffset) t = t + (if t < switch then wasOffset else isOffset)"
  by (simp add: LocalTime_def springForward_def)

lemma UTC_springForward:
  "UTC (springForward switch wasOffset isOffset) t = t - (if t < switch + isOffset then wasOffset else isOffset)"
  by (simp add: UTC_def springForward_def)

lemma Day_within:
  assumes "d * 86400000 \<le> t" and "t < d * 86400000 + 86400000"
  shows "Day t = d"
proof -
  have "t div 86400000 = d"
    using assms by linarith
  then show ?thesis
    by (simp add: Day_def msPerDay_def)
qed

lemma keepsDay_newYork: "keepsDay newYork"
  unfolding keepsDay_def
proof
  fix t :: int
  consider "t < 1710036000000" | "1710036000000 \<le> t" "t < 1710039600000" | "1710039600000 \<le> t"
    by linarith
  then show "Day (LocalTime newYork (UTC newYork t)) = Day t"
  proof cases
    case 1
    then show ?thesis
      by (simp add: newYork_def LocalTime_springForward UTC_springForward)
  next
    case 2
    then have "LocalTime newYork (UTC newYork t) = t + 3600000"
      by (simp add: newYork_def LocalTime_springForward UTC_springForward)
    moreover have "Day (t + 3600000) = 19792" "Day t = 19792"
      using 2 by (intro Day_within; simp)+
    ultimately show ?thesis by simp
  next
    case 3
    then show ?thesis
      by (simp add: newYork_def LocalTime_springForward UTC_springForward)
  qed
qed

lemma offsetsWithinADay_newYork: "offsetsWithinADay newYork"
  by (simp add: offsetsWithinADay_def newYork_def springForward_def msPerDay_def)

lemma steadyAtMonday_newYork: "steadyAtMonday newYork"
  unfolding steadyAtMonday_def
proof (intro allI impI)
  fix d :: int
  consider "d \<le> 19792" | "19793 \<le> d"
    by linarith
  then show "LocalTime newYork (UTC newYork (d * msPerDay)) = d * msPerDay
       \<and> LocalTime newYork (UTC newYork (d * msPerDay - 1)) = d * msPerDay - 1
       \<and> UTC newYork (d * msPerDay) = UTC newYork (d * msPerDay - 1) + 1"
  proof cases
    case 1
    then have "d * 86400000 \<le> 1710028800000"
      by simp
    then show ?thesis
      by (simp add: newYork_def LocalTime_springForward UTC_springForward msPerDay_def)
  next
    case 2
    then have "1710115200000 \<le> d * 86400000"
      by simp
    then show ?thesis
      by (simp add: newYork_def LocalTime_springForward UTC_springForward msPerDay_def)
  qed
qed

lemma keepsDay_tehran: "keepsDay tehran"
  unfolding keepsDay_def
proof
  fix t :: int
  consider "t < 1616371200000" | "1616371200000 \<le> t" "t < 1616374800000" | "1616374800000 \<le> t"
    by linarith
  then show "Day (LocalTime tehran (UTC tehran t)) = Day t"
  proof cases
    case 1
    then show ?thesis
      by (simp add: tehran_def LocalTime_springForward UTC_springForward)
  next
    case 2
    then have "LocalTime tehran (UTC tehran t) = t + 3600000"
      by (simp add: tehran_def LocalTime_springForward UTC_springForward)
    moreover have "Day (t + 3600000) = 18708" "Day t = 18708"
      using 2 by (intro Day_within; simp)+
    ultimately show ?thesis by simp
  next
    case 3
    then show ?thesis
      by (simp add: tehran_def LocalTime_springForward UTC_springForward)
  qed
qed

lemma sample_mondayOf: "mondayOf newYork sampleToday = 19786"
  by (simp add: mondayOf_def sampleToday_def newYork_def LocalTime_springForward Day_def
      msPerDay_def)

lemma sample_windows:
  "map weekStart (weekBuckets newYork sampleToday)
   = [1707714000000, 1708318800000, 1708923600000, 1709528400000]"
  "map weekEnd (weekBuckets newYork sampleToday)
   = [1708318799999, 1708923599999, 1709528399999, 1710129599999]"
proof -
  have u: "UTC newYork t = t - (if t < 1710039600000 then - 18000000 else - 14400000)" for t
    by (simp add: newYork_def UTC_springForward)
  show "map weekStart (weekBuckets newYork sampleToday)
        = [1707714000000, 1708318800000, 1708923600000, 1709528400000]"
    by (simp add: weekBuckets_def makeBucket_weekStart [OF keepsDay_newYork] sample_mondayOf
        msPerDay_def u)
  show "map weekEnd (weekBuckets newYork sampleToday)
        = [1708318799999, 1708923599999, 1709528399999, 1710129599999]"
    by (simp add: weekBuckets_def makeBucket_weekEnd [OF keepsDay_newYork] sample_mondayOf
        msPerDay_def u)
qed

lemma tehran_mondayOf: "mondayOf tehran tehranToday = 18708"
  by (simp add: mondayOf_def tehranToday_def tehran_def LocalTime_springForward Day_def
      msPerDay_def)

lemma dated_sel:
  "dateAdded (dated s a hu) = s"
  "hasBothScores (dated s a hu) \<longleftrightarrow> 0 < a \<and> 0 < hu"
  by (simp_all add: dated_def scoresOnly_def hasBothScores_def)

lemma sampleParse_values:
  "sampleParse ''2024-03-03T23:59:59.999-05:00'' = Some 1709528399999"
  "sampleParse ''2024-03-04T00:00:00.000-05:00'' = Some 1709528400000"
  "sampleParse ''2024-03-10T23:59:59.999-04:00'' = Some 1710129599999"
  "sampleParse ''2024-01-01T00:00:00.000-05:00'' = Some 1704085200000"
  "sampleParse ''next week'' = None"
  "sampleParse [] = None"
  by (simp_all add: sampleParse_def)

lemma sample_firstBucket:
  "firstBucket sampleParse (weekBuckets newYork sampleToday) (dated s a hu)
   = (case sampleParse s of
        None \<Rightarrow> None
      | Some d \<Rightarrow> firstTrue [1707714000000 \<le> d \<and> d \<le> 1708318799999,
                            1708318800000 \<le> d \<and> d \<le> 1708923599999,
                            1708923600000 \<le> d \<and> d \<le> 1709528399999,
                            1709528400000 \<le> d \<and> d \<le> 1710129599999])"
  by (simp add: firstBucket_def fallsIn_map sample_windows dated_sel split: option.split)

lemma map_of_four:
  assumes "length xs = 4"
  shows "map f xs = [f (xs ! 0), f (xs ! 1), f (xs ! 2), f (xs ! 3)]"
proof -
  from assms obtain a b c d where "xs = [a, b, c, d]"
    by (auto simp add: numeral_eq_Suc length_Suc_conv)
  then show ?thesis by simp
qed

text \<open>The pair of counts of each returned bucket.\<close>

lemma bucket_totals:
  "map (\<lambda>m. (WeeklyMetrics.scoredCandidates m, WeeklyMetrics.totalCandidates m))
     (calculateWeeklyTrends parse h today candidates)
   = map (\<lambda>j. (length (filter hasBothScores
                   (filter (\<lambda>c. dateAdded c \<noteq> [] \<and> firstBucket parse (weekBuckets h today) c = Some j)
                      candidates)),
               length (filter (\<lambda>c. dateAdded c \<noteq> [] \<and> firstBucket parse (weekBuckets h today) c = Some j)
                      candidates)))
       [0, 1, 2, 3]"
  unfolding calculateWeeklyTrends_def map_map
  by (simp add: map_of_four [OF length_assignedBuckets] weekMetrics_counts assignedBuckets_nth)

section \<open>Properties of calculateWeeklyTrends\<close>

lemma makeBucket_monday:
  assumes "keepsDay h"
  shows "getDay h (weekStart (makeBucket h today i)) = 1"
  using mondayOf_weekday [of h today i]
  by (simp add: getDay_def WeekDay_def makeBucket_weekStart [OF assms] keepsDayD [OF assms]
      Day_days)

lemma steadyAtMondayD:
  assumes "steadyAtMonday h" and "(d + 4) mod 7 = 1"
  shows "LocalTime h (UTC h (d * msPerDay)) = d * msPerDay"
    and "LocalTime h (UTC h (d * msPerDay - 1)) = d * msPerDay - 1"
    and "UTC h (d * msPerDay) = UTC h (d * msPerDay - 1) + 1"
proof -
  from assms(2) have "WeekDay (d * msPerDay) = 1"
    by (simp add: WeekDay_def Day_days)
  with assms(1) show "LocalTime h (UTC h (d * msPerDay)) = d * msPerDay"
    and "LocalTime h (UTC h (d * msPerDay - 1)) = d * msPerDay - 1"
    and "UTC h (d * msPerDay) = UTC h (d * msPerDay - 1) + 1"
    unfolding steadyAtMonday_def by blast+
qed

lemma next_monday: "(mondayOf h today - 7 * i + 7 + 4) mod 7 = 1"
  using mondayOf_weekday [of h today "i - 1"] by (simp add: algebra_simps)

lemma makeBucket_local:
  assumes "keepsDay h" and "steadyAtMonday h"
  shows "LocalTime h (weekStart (makeBucket h today i)) = (mondayOf h today - 7 * i) * msPerDay"
    and "LocalTime h (weekEnd (makeBucket h today i))
         = (mondayOf h today - 7 * i + 7) * msPerDay - 1"
    and "weekStart (makeBucket h today (i - 1)) = weekEnd (makeBucket h today i) + 1"
proof -
  show "LocalTime h (weekStart (makeBucket h today i)) = (mondayOf h today - 7 * i) * msPerDay"
    unfolding makeBucket_weekStart [OF assms(1)]
    by (rule steadyAtMondayD(1) [OF assms(2) mondayOf_weekday])
  show "LocalTime h (weekEnd (makeBucket h today i))
         = (mondayOf h today - 7 * i + 7) * msPerDay - 1"
    unfolding makeBucket_weekEnd [OF assms(1)]
    by (rule steadyAtMondayD(2) [OF assms(2) next_monday])
  have eq: "mondayOf h today - 7 * (i - 1) = mondayOf h today - 7 * i + 7"
    by simp
  show "weekStart (makeBucket h today (i - 1)) = weekEnd (makeBucket h today i) + 1"
    unfolding makeBucket_weekStart [OF assms(1)] makeBucket_weekEnd [OF assms(1)] eq
    by (rule steadyAtMondayD(3) [OF assms(2) next_monday])
qed

lemma window_nonempty:
  assumes "keepsDay h" and "offsetsWithinADay h"
  shows "weekStart (makeBucket h today i) < weekEnd (makeBucket h today i)"
proof -
  have "(mondayOf h today - 7 * i + 1) * msPerDay \<le> (mondayOf h today - 7 * i + 6) * msPerDay"
    using msPerDay_pos by (intro mult_right_mono) simp_all
  with window_bounds(1,2) [OF assms, of today i] show ?thesis
    by linarith
qed

text \<open>
  Claim C1, as the code has it. The claim says that every week window starts on a Monday
  at 00:00:00.000. The start is what \<^verbatim>\<open>setHours(0, 0, 0, 0)\<close> yields, and where the
  host's clock is put forward at that very midnight the local time 00:00 does not exist:
  in Tehran daylight time began at the midnight that started Monday 22 March 2021, and for
  a reference date in that week the last window starts on the Monday at 01:00:00.000
  local time.
\<close>

theorem C1_monday_midnight_skipped:
  "getDay tehran (weekStart (last (weekBuckets tehran tehranToday))) = 1
   \<and> TimeWithinDay (LocalTime tehran (weekStart (last (weekBuckets tehran tehranToday))))
       = MakeTime 1 0 0 0
   \<and> last (map WeeklyMetrics.date (calculateWeeklyTrends sampleParse tehran tehranToday []))
       = 1616358600000"
proof -
  have ws: "weekStart (last (weekBuckets tehran tehranToday)) = 1616358600000"
    by (simp add: weekBuckets_def makeBucket_weekStart [OF keepsDay_tehran] tehran_mondayOf
        msPerDay_def)
       (simp add: tehran_def UTC_springForward)
  have lt: "LocalTime tehran 1616358600000 = 1616374800000"
    by (simp add: tehran_def LocalTime_springForward)
  have "getDay tehran 1616358600000 = 1"
    by (simp add: getDay_def lt WeekDay_def Day_def msPerDay_def)
  moreover have "TimeWithinDay (LocalTime tehran 1616358600000) = MakeTime 1 0 0 0"
    by (simp add: lt TimeWithinDay_def MakeTime_def msPerDay_def)
  moreover have "last (map WeeklyMetrics.date (calculateWeeklyTrends sampleParse tehran tehranToday []))
       = weekStart (last (weekBuckets tehran tehranToday))"
    by (simp add: calculateWeeklyTrends_def assignedBuckets_def weekBuckets_def weekMetrics_def
        Let_def)
  ultimately show ?thesis
    by (simp add: ws)
qed

text \<open>
  Claim C1, amended. On a host that keeps the day, whose local time is less than a day
  from UTC and whose clock does not change at the midnight that starts a Monday, for
  every candidate list and every reference date, whatever its day of the week,
  \<open>calculateWeeklyTrends\<close> returns 4 buckets, the \<open>date\<close> of each being the start of
  its window. Each window starts on a Monday at 00:00:00.000 local time and ends, in local
  time, 6 days later at 23:59:59.999; each window starts one millisecond after the one
  before it ends; the sequence start, end, start, end, ... is strictly increasing (oldest
  first, no overlap); the local day of the reference date lies in the last window; and
  assigning candidates leaves the windows as they were built.
\<close>

theorem C1_four_monday_windows:
  assumes "keepsDay h" and "offsetsWithinADay h" and "steadyAtMonday h"
  shows "length (calculateWeeklyTrends parse h today candidates) = 4
   \<and> map WeeklyMetrics.date (calculateWeeklyTrends parse h today candidates)
       = map weekStart (weekBuckets h today)
   \<and> map weekStart (assignedBuckets parse h today candidates)
       = map weekStart (weekBuckets h today)
   \<and> map weekEnd (assignedBuckets parse h today candidates)
       = map weekEnd (weekBuckets h today)
   \<and> map (\<lambda>b. getDay h (weekStart b)) (weekBuckets h today) = [1, 1, 1, 1]
   \<and> map (\<lambda>b. TimeWithinDay (LocalTime h (weekStart b))) (weekBuckets h today)
       = [0, 0, 0, 0]
   \<and> map (\<lambda>b. LocalTime h (weekEnd b) - LocalTime h (weekStart b)) (weekBuckets h today)
       = replicate 4 (6 * msPerDay + MakeTime 23 59 59 999)
   \<and> map weekStart (tl (weekBuckets h today))
       = map (\<lambda>b. weekEnd b + 1) (butlast (weekBuckets h today))
   \<and> sorted_wrt (<) (concat (map (\<lambda>b. [weekStart b, weekEnd b]) (weekBuckets h today)))
   \<and> Day (LocalTime h (weekStart (last (weekBuckets h today)))) \<le> Day (LocalTime h today)
   \<and> Day (LocalTime h today) \<le> Day (LocalTime h (weekEnd (last (weekBuckets h today))))"
proof -
  note kd = assms(1) and sm = assms(3)
  have len: "length (calculateWeeklyTrends parse h today candidates) = 4"
    by (simp add: calculateWeeklyTrends_def length_assignedBuckets)
  have dates: "map WeeklyMetrics.date (calculateWeeklyTrends parse h today candidates)
               = map weekStart (weekBuckets h today)"
    by (simp add: calculateWeeklyTrends_def assignedBuckets_def weekMetrics_def Let_def comp_def
        foldl_assign_windows)
  have starts: "map weekStart (assignedBuckets parse h today candidates)
                = map weekStart (weekBuckets h today)"
    and ends: "map weekEnd (assignedBuckets parse h today candidates)
                = map weekEnd (weekBuckets h today)"
    by (simp_all add: assignedBuckets_def foldl_assign_windows)
  have monday: "map (\<lambda>b. getDay h (weekStart b)) (weekBuckets h today) = [1, 1, 1, 1]"
    by (simp add: weekBuckets_def makeBucket_monday [OF kd])
  have midnight:
    "map (\<lambda>b. TimeWithinDay (LocalTime h (weekStart b))) (weekBuckets h today) = [0, 0, 0, 0]"
    by (simp add: weekBuckets_def makeBucket_local [OF kd sm] TimeWithinDay_def)
  have "LocalTime h (weekEnd (makeBucket h today i)) - LocalTime h (weekStart (makeBucket h today i))
        = 6 * msPerDay + MakeTime 23 59 59 999" for i
    unfolding makeBucket_local [OF kd sm]
    by (simp add: msPerDay_def MakeTime_def algebra_simps)
  then have span:
    "map (\<lambda>b. LocalTime h (weekEnd b) - LocalTime h (weekStart b)) (weekBuckets h today)
     = replicate 4 (6 * msPerDay + MakeTime 23 59 59 999)"
    by (simp add: weekBuckets_def numeral_eq_Suc)
  have c32: "weekStart (makeBucket h today 2) = weekEnd (makeBucket h today 3) + 1"
    and c21: "weekStart (makeBucket h today 1) = weekEnd (makeBucket h today 2) + 1"
    and c10: "weekStart (makeBucket h today 0) = weekEnd (makeBucket h today 1) + 1"
    using makeBucket_local(3) [OF kd sm, of today 3] makeBucket_local(3) [OF kd sm, of today 2]
      makeBucket_local(3) [OF kd sm, of today 1]
    by simp_all
  have contiguous: "map weekStart (tl (weekBuckets h today))
                    = map (\<lambda>b. weekEnd b + 1) (butlast (weekBuckets h today))"
    by (simp add: weekBuckets_def c32 c21 c10)
  have increasing:
    "sorted_wrt (<) (concat (map (\<lambda>b. [weekStart b, weekEnd b]) (weekBuckets h today)))"
    using window_nonempty [OF assms(1,2), of today 3] window_nonempty [OF assms(1,2), of today 2]
      window_nonempty [OF assms(1,2), of today 1] window_nonempty [OF assms(1,2), of today 0]
      c32 c21 c10
    by (simp add: weekBuckets_def)
  have "Day (LocalTime h (weekStart (makeBucket h today 0))) = mondayOf h today"
    by (simp add: makeBucket_local [OF kd sm] Day_days)
  moreover have "Day (LocalTime h (weekEnd (makeBucket h today 0))) = mondayOf h today + 6"
  proof -
    have "(mondayOf h today + 7) * msPerDay - 1
          = (mondayOf h today + 6) * msPerDay + MakeTime 23 59 59 999"
      by (simp add: msPerDay_def MakeTime_def algebra_simps)
    then show ?thesis
      using makeBucket_local(2) [OF kd sm, of today 0] by (simp add: Day_last_ms)
  qed
  ultimately have current:
    "Day (LocalTime h (weekStart (last (weekBuckets h today)))) \<le> Day (LocalTime h today)"
    "Day (LocalTime h today) \<le> Day (LocalTime h (weekEnd (last (weekBuckets h today))))"
    using mondayOf_range [of h today] by (simp_all add: weekBuckets_def)
  show ?thesis
    by (intro conjI) (fact len dates starts ends monday midnight span contiguous increasing
        current)+
qed

theorem C1_four_monday_windows_witness:
  "keepsDay newYork \<and> offsetsWithinADay newYork \<and> steadyAtMonday newYork
   \<and> getDay newYork sampleToday = 0
   \<and> length (calculateWeeklyTrends sampleParse newYork sampleToday []) = 4
   \<and> map WeeklyMetrics.date (calculateWeeklyTrends sampleParse newYork sampleToday [])
       = [1707714000000, 1708318800000, 1708923600000, 1709528400000]
   \<and> map weekEnd (weekBuckets newYork sampleToday)
       = [1708318799999, 1708923599999, 1709528399999, 1710129599999]
   \<and> map (\<lambda>b. weekEnd b - weekStart b) (weekBuckets newYork sampleToday)
       = [604799999, 604799999, 604799999, 601199999]
   \<and> map (\<lambda>b. getDay newYork (weekStart b)) (weekBuckets newYork sampleToday) = [1, 1, 1, 1]
   \<and> map (\<lambda>b. LocalTime newYork (weekEnd b) - LocalTime newYork (weekStart b))
         (weekBuckets newYork sampleToday)
       = [604799999, 604799999, 604799999, 604799999]"
proof -
  have sunday: "getDay newYork sampleToday = 0"
    by (simp add: getDay_def WeekDay_def newYork_def LocalTime_springForward Day_def
        sampleToday_def msPerDay_def)
  have "map (\<lambda>b. weekEnd b - weekStart b) (weekBuckets newYork sampleToday)
        = map2 (\<lambda>s e. e - s) (map weekStart (weekBuckets newYork sampleToday))
            (map weekEnd (weekBuckets newYork sampleToday))"
    by (simp add: weekBuckets_def)
  then have spans: "map (\<lambda>b. weekEnd b - weekStart b) (weekBuckets newYork sampleToday)
        = [604799999, 604799999, 604799999, 601199999]"
    by (simp add: sample_windows)
  show ?thesis
    using C1_four_monday_windows [OF keepsDay_newYork offsetsWithinADay_newYork
        steadyAtMonday_newYork, of sampleParse sampleToday "[]"]
      keepsDay_newYork offsetsWithinADay_newYork steadyAtMonday_newYork sunday spans
    by (simp add: sample_windows msPerDay_def MakeTime_def numeral_eq_Suc)
qed



text \<open>
  Claim C6. A record whose \<open>dateAdded\<close> is missing (empty), or does not parse, or parses
  to a date outside all four windows, is in no bucket, and the result of
  \<open>calculateWeeklyTrends\<close> is the one computed without it: the record is dropped and
  nothing fails (the function has no failing branch). \<open>calculateScoreDiscrepancy\<close> does
  not read the date: such a record with both scores positive adds one to its
  \<open>totalCandidates\<close>, and the summary is the same whatever the date is replaced by.
\<close>

theorem C6_undated_records_dropped:
  assumes "dateAdded c = [] \<or> parse (dateAdded c) = None
           \<or> (\<exists>d. parse (dateAdded c) = Some d
                 \<and> (\<forall>b \<in> set (weekBuckets h today). d < weekStart b \<or> weekEnd b < d))"
  shows "calculateWeeklyTrends parse h today (xs @ c # ys)
           = calculateWeeklyTrends parse h today (xs @ ys)
       \<and> (\<forall>b \<in> set (assignedBuckets parse h today (xs @ c # ys)).
             c \<notin> set (allCandidates b))
       \<and> ScoreAnalysis.totalCandidates (calculateScoreDiscrepancy (xs @ c # ys))
           = ScoreAnalysis.totalCandidates (calculateScoreDiscrepancy (xs @ ys))
             + (if hasBothScores c then 1 else 0)
       \<and> calculateScoreDiscrepancy (xs @ c\<lparr> dateAdded := anyDate \<rparr> # ys)
           = calculateScoreDiscrepancy (xs @ c # ys)"
proof -
  let ?dated = "filter (\<lambda>c. dateAdded c \<noteq> [])"
  let ?bs = "weekBuckets h today"
  have out: "firstBucket parse ?bs c = None" if "dateAdded c \<noteq> []"
  proof -
    have "\<not> fallsIn parse c b" if "b \<in> set ?bs" for b
      using assms \<open>dateAdded c \<noteq> []\<close> that by (auto simp add: fallsIn_def)
    then show ?thesis
      by (simp add: firstBucket_def firstTrue_None)
  qed
  have same: "assignedBuckets parse h today (xs @ c # ys)
              = assignedBuckets parse h today (xs @ ys)"
  proof (cases "dateAdded c = []")
    case True
    then show ?thesis by (simp add: assignedBuckets_def)
  next
    case False
    have "firstBucket parse (foldl (assignCandidate parse) ?bs (?dated xs)) c = None"
      unfolding firstBucket_foldl_assign by (rule out [OF False])
    then have "assignCandidate parse (foldl (assignCandidate parse) ?bs (?dated xs)) c
               = foldl (assignCandidate parse) ?bs (?dated xs)"
      by (rule assignCandidate_unmatched)
    with False show ?thesis
      by (simp add: assignedBuckets_def)
  qed
  then have trends: "calculateWeeklyTrends parse h today (xs @ c # ys)
                     = calculateWeeklyTrends parse h today (xs @ ys)"
    by (simp add: calculateWeeklyTrends_def)
  have absent: "\<forall>b \<in> set (assignedBuckets parse h today (xs @ c # ys)).
                  c \<notin> set (allCandidates b)"
  proof
    fix b
    assume "b \<in> set (assignedBuckets parse h today (xs @ c # ys))"
    then obtain j where j: "j < 4" and b: "b = assignedBuckets parse h today (xs @ c # ys) ! j"
      by (auto simp add: in_set_conv_nth length_assignedBuckets)
    show "c \<notin> set (allCandidates b)"
      unfolding b assignedBuckets_nth(1) [OF j] using out by auto
  qed
  have count: "ScoreAnalysis.totalCandidates (calculateScoreDiscrepancy (xs @ c # ys))
               = ScoreAnalysis.totalCandidates (calculateScoreDiscrepancy (xs @ ys))
                 + (if hasBothScores c then 1 else 0)"
    by (simp add: calculateScoreDiscrepancy_def filter_scored_conv Let_def)
  have "hasBothScores (c\<lparr> dateAdded := anyDate \<rparr>) = hasBothScores c"
    by (simp add: hasBothScores_def)
  then have nodate: "calculateScoreDiscrepancy (xs @ c\<lparr> dateAdded := anyDate \<rparr> # ys)
                     = calculateScoreDiscrepancy (xs @ c # ys)"
    by (simp add: calculateScoreDiscrepancy_def filter_scored_conv Let_def)
  from trends absent count nodate show ?thesis
    by (intro conjI)
qed

theorem C6_undated_records_dropped_witness:
  "calculateWeeklyTrends sampleParse newYork sampleToday
      [dated ''2024-03-04T00:00:00.000-05:00'' 5 5, dated [] 8 6]
     = calculateWeeklyTrends sampleParse newYork sampleToday
         [dated ''2024-03-04T00:00:00.000-05:00'' 5 5]
   \<and> sampleParse (dateAdded (dated ''next week'' 8 6)) = None
   \<and> calculateWeeklyTrends sampleParse newYork sampleToday
      [dated ''2024-03-04T00:00:00.000-05:00'' 5 5, dated ''next week'' 8 6]
     = calculateWeeklyTrends sampleParse newYork sampleToday
         [dated ''2024-03-04T00:00:00.000-05:00'' 5 5]
   \<and> sampleParse (dateAdded (dated ''2024-01-01T00:00:00.000-05:00'' 8 6)) = Some 1704085200000
   \<and> calculateWeeklyTrends sampleParse newYork sampleToday
      [dated ''2024-03-04T00:00:00.000-05:00'' 5 5, dated ''2024-01-01T00:00:00.000-05:00'' 8 6]
     = calculateWeeklyTrends sampleParse newYork sampleToday
         [dated ''2024-03-04T00:00:00.000-05:00'' 5 5]
   \<and> ScoreAnalysis.totalCandidates (calculateScoreDiscrepancy
        [dated ''2024-03-04T00:00:00.000-05:00'' 5 5, dated ''next week'' 8 6]) = 2"
proof -
  let ?x = "dated ''2024-03-04T00:00:00.000-05:00'' 5 5"
  have h1: "dateAdded (dated [] 8 6) = [] \<or> sampleParse (dateAdded (dated [] 8 6)) = None
            \<or> (\<exists>d. sampleParse (dateAdded (dated [] 8 6)) = Some d
                 \<and> (\<forall>b \<in> set (weekBuckets newYork sampleToday). d < weekStart b \<or> weekEnd b < d))"
    by (simp add: dated_sel)
  have p2: "sampleParse (dateAdded (dated ''next week'' 8 6)) = None"
    by (simp add: dated_sel sampleParse_values)
  then have h2: "dateAdded (dated ''next week'' 8 6) = []
            \<or> sampleParse (dateAdded (dated ''next week'' 8 6)) = None
            \<or> (\<exists>d. sampleParse (dateAdded (dated ''next week'' 8 6)) = Some d
                 \<and> (\<forall>b \<in> set (weekBuckets newYork sampleToday). d < weekStart b \<or> weekEnd b < d))"
    by simp
  have p3: "sampleParse (dateAdded (dated ''2024-01-01T00:00:00.000-05:00'' 8 6)) = Some 1704085200000"
    by (simp add: dated_sel sampleParse_values)
  have "\<forall>s \<in> set (map weekStart (weekBuckets newYork sampleToday)). 1704085200000 < s"
    unfolding sample_windows by simp
  then have "\<forall>b \<in> set (weekBuckets newYork sampleToday).
               1704085200000 < weekStart b \<or> weekEnd b < 1704085200000"
    by simp
  with p3 have h3: "dateAdded (dated ''2024-01-01T00:00:00.000-05:00'' 8 6) = []
            \<or> sampleParse (dateAdded (dated ''2024-01-01T00:00:00.000-05:00'' 8 6)) = None
            \<or> (\<exists>d. sampleParse (dateAdded (dated ''2024-01-01T00:00:00.000-05:00'' 8 6)) = Some d
                 \<and> (\<forall>b \<in> set (weekBuckets newYork sampleToday). d < weekStart b \<or> weekEnd b < d))"
    by simp
  have count: "ScoreAnalysis.totalCandidates (calculateScoreDiscrepancy [?x, dated ''next week'' 8 6]) = 2"
    by (simp add: calculateScoreDiscrepancy_def dated_def scoresOnly_def)
  show ?thesis
    using C6_undated_records_dropped [where c = "dated [] 8 6" and parse = sampleParse
        and h = newYork and today = sampleToday and xs = "[?x]" and ys = "[]", OF h1]
      C6_undated_records_dropped [where c = "dated ''next week'' 8 6" and parse = sampleParse
        and h = newYork and today = sampleToday and xs = "[?x]" and ys = "[]", OF h2]
      C6_undated_records_dropped [where c = "dated ''2024-01-01T00:00:00.000-05:00'' 8 6"
        and parse = sampleParse and h = newYork and today = sampleToday and xs = "[?x]"
        and ys = "[]", OF h3]
      p2 p3 count
    by simp
qed

text \<open>
  Claim C9. In every bucket that \<open>calculateWeeklyTrends\<close> returns, the three sign
  counts add up to \<open>scoredCandidates\<close>, and \<open>scoredCandidates\<close> is at most
  \<open>totalCandidates\<close>.
\<close>

theorem C9_bucket_count_invariant:
  "\<forall>m \<in> set (calculateWeeklyTrends parse h today candidates).
     WeeklyMetrics.aiHigherCount m + WeeklyMetrics.humanHigherCount m + equalCount m
       = WeeklyMetrics.scoredCandidates m
     \<and> WeeklyMetrics.scoredCandidates m \<le> WeeklyMetrics.totalCandidates m"
proof
  fix m
  assume "m \<in> set (calculateWeeklyTrends parse h today candidates)"
  then obtain j where j: "j < 4"
    and m: "m = weekMetrics (assignedBuckets parse h today candidates ! j)"
    by (auto simp add: calculateWeeklyTrends_def in_set_conv_nth length_assignedBuckets)
  let ?b = "assignedBuckets parse h today candidates ! j"
  have signs: "WeeklyMetrics.aiHigherCount m + WeeklyMetrics.humanHigherCount m + equalCount m
               = WeeklyMetrics.scoredCandidates m"
    using sign_partition [of "map (\<lambda>c. aiScore c - humanScore c) (WeekBucket.scoredCandidates ?b)"]
    by (simp add: m weekMetrics_def Let_def)
  have "length (WeekBucket.scoredCandidates ?b) \<le> length (allCandidates ?b)"
    unfolding assignedBuckets_nth(2) [OF j] by (rule length_filter_le)
  then have "WeeklyMetrics.scoredCandidates m \<le> WeeklyMetrics.totalCandidates m"
    by (simp add: m weekMetrics_counts)
  with signs show "WeeklyMetrics.aiHigherCount m + WeeklyMetrics.humanHigherCount m + equalCount m
       = WeeklyMetrics.scoredCandidates m
     \<and> WeeklyMetrics.scoredCandidates m \<le> WeeklyMetrics.totalCandidates m"
    by simp
qed

theorem C9_bucket_count_invariant_witness:
  "list_all (\<lambda>m. WeeklyMetrics.aiHigherCount m + WeeklyMetrics.humanHigherCount m + equalCount m
               = WeeklyMetrics.scoredCandidates m
             \<and> WeeklyMetrics.scoredCandidates m \<le> WeeklyMetrics.totalCandidates m)
     (calculateWeeklyTrends sampleParse newYork sampleToday
        [dated ''2024-03-04T00:00:00.000-05:00'' 8 6, dated ''2024-03-10T23:59:59.999-04:00'' 4 7,
         dated ''2024-03-04T00:00:00.000-05:00'' 3 0, dated ''2024-03-03T23:59:59.999-05:00'' 9 9])
   \<and> map (\<lambda>m. (WeeklyMetrics.scoredCandidates m, WeeklyMetrics.totalCandidates m))
       (calculateWeeklyTrends sampleParse newYork sampleToday
        [dated ''2024-03-04T00:00:00.000-05:00'' 8 6, dated ''2024-03-10T23:59:59.999-04:00'' 4 7,
         dated ''2024-03-04T00:00:00.000-05:00'' 3 0, dated ''2024-03-03T23:59:59.999-05:00'' 9 9])
     = [(0, 0), (0, 0), (1, 1), (2, 3)]"
proof -
  let ?cs = "[dated ''2024-03-04T00:00:00.000-05:00'' 8 6, dated ''2024-03-10T23:59:59.999-04:00'' 4 7,
         dated ''2024-03-04T00:00:00.000-05:00'' 3 0, dated ''2024-03-03T23:59:59.999-05:00'' 9 9]"
  have "map (\<lambda>m. (WeeklyMetrics.scoredCandidates m, WeeklyMetrics.totalCandidates m))
       (calculateWeeklyTrends sampleParse newYork sampleToday ?cs) = [(0, 0), (0, 0), (1, 1), (2, 3)]"
    unfolding bucket_totals
    by (simp add: sample_firstBucket dated_sel sampleParse_values)
  then show ?thesis
    using C9_bucket_count_invariant [of sampleParse newYork sampleToday ?cs]
    by (simp add: list_all_iff)
qed

section \<open>Role breakdowns: properties\<close>

lemma roleKey_roleless:
  "jobRole c = [] \<Longrightarrow> Candidate.role c = [] \<Longrightarrow> roleKey c = ''No Role''"
  by (simp add: roleKey_def)

lemma tallyCandidate_total:
  "RoleGroup.totalCandidates (tallyCandidate c g) = RoleGroup.totalCandidates g + 1"
  by (simp add: tallyCandidate_def Let_def)

lemma tallyQuality_total:
  "QualityGroup.totalCandidates (tallyQuality c g) = QualityGroup.totalCandidates g + 1"
  by (simp add: tallyQuality_def Let_def)

lemma map_of_roleAnalysisStep:
  "map_of (roleAnalysisStep acc c) k =
    (if k = roleKey c
     then Some (tallyCandidate c
                 (case map_of acc (roleKey c) of None \<Rightarrow> newRoleGroup (roleKey c) | Some g \<Rightarrow> g))
     else map_of acc k)"
  by (simp add: roleAnalysisStep_def Let_def update_conv')

lemma map_of_roleQualityStep:
  "map_of (roleQualityStep acc c) k =
    (if k = roleKey c
     then Some (tallyQuality c
                 (case map_of acc (roleKey c) of None \<Rightarrow> newQualityGroup (roleKey c) | Some g \<Rightarrow> g))
     else map_of acc k)"
  by (simp add: roleQualityStep_def Let_def update_conv')

lemma roleAnalysis_snoc: "roleAnalysis (cs @ [c]) = roleAnalysisStep (roleAnalysis cs) c"
  by (simp add: roleAnalysis_def)

lemma roleQuality_snoc: "roleQuality (cs @ [c]) = roleQualityStep (roleQuality cs) c"
  by (simp add: roleQuality_def)

lemma roleAnalysis_total:
  "(case map_of (roleAnalysis cs) k of None \<Rightarrow> 0 | Some g \<Rightarrow> RoleGroup.totalCandidates g)
     = length (filter (\<lambda>x. roleKey x = k) cs)
   \<and> (map_of (roleAnalysis cs) k = None \<longleftrightarrow> k \<notin> roleKey ` set cs)"
proof (induction cs rule: rev_induct)
  case Nil
  then show ?case by (simp add: roleAnalysis_def)
next
  case (snoc c cs)
  then show ?case
    by (auto simp add: roleAnalysis_snoc map_of_roleAnalysisStep tallyCandidate_total
        newRoleGroup_def split: option.splits)
qed

lemma roleQuality_total:
  "(case map_of (roleQuality cs) k of None \<Rightarrow> 0 | Some g \<Rightarrow> QualityGroup.totalCandidates g)
     = length (filter (\<lambda>x. roleKey x = k) cs)
   \<and> (map_of (roleQuality cs) k = None \<longleftrightarrow> k \<notin> roleKey ` set cs)"
proof (induction cs rule: rev_induct)
  case Nil
  then show ?case by (simp add: roleQuality_def)
next
  case (snoc c cs)
  then show ?case
    by (auto simp add: roleQuality_snoc map_of_roleQualityStep tallyQuality_total
        newQualityGroup_def split: option.splits)
qed

text \<open>
  Claim C7, as the code has it. The claim says that a record with no role is left out
  of the role map; the code groups it under the key \<open>No Role\<close>: with a single
  role-less record the map of either tab has that one key, with a count of 1, and is not
  the map computed from the records that have a role.
\<close>

theorem C7_roleless_record_is_grouped:
  "jobRole (scoresOnly 5 0) = [] \<and> Candidate.role (scoresOnly 5 0) = []
   \<and> map fst (roleAnalysis [scoresOnly 5 0]) = [''No Role'']
   \<and> map (\<lambda>entry. RoleGroup.totalCandidates (snd entry)) (roleAnalysis [scoresOnly 5 0]) = [1]
   \<and> roleAnalysis [scoresOnly 5 0]
       \<noteq> roleAnalysis (filter (\<lambda>c. jobRole c \<noteq> [] \<or> Candidate.role c \<noteq> []) [scoresOnly 5 0])
   \<and> map fst (roleQuality [scoresOnly 5 0]) = [''No Role'']
   \<and> map (\<lambda>entry. QualityGroup.totalCandidates (snd entry)) (roleQuality [scoresOnly 5 0]) = [1]
   \<and> roleQuality [scoresOnly 5 0]
       \<noteq> roleQuality (filter (\<lambda>c. jobRole c \<noteq> [] \<or> Candidate.role c \<noteq> []) [scoresOnly 5 0])"
  by (simp add: roleAnalysis_def roleAnalysisStep_def roleQuality_def roleQualityStep_def
      roleKey_def scoresOnly_def tallyCandidate_def tallyQuality_def newRoleGroup_def
      newQualityGroup_def Let_def)

text \<open>
  Claim C7, amended. In the role breakdown of either tab, a record whose \<open>jobRole\<close> and
  \<open>role\<close> are both empty or absent is grouped under the key \<open>No Role\<close>: when the input
  holds such a record the map has a group under that key, and the group's
  \<open>totalCandidates\<close> is the number of input records whose key is \<open>No Role\<close>.
\<close>

theorem C7_roleless_grouped_under_No_Role:
  assumes "c \<in> set candidates" and "jobRole c = []" and "Candidate.role c = []"
  shows "roleKey c = ''No Role''
       \<and> (\<exists>g. map_of (roleAnalysis candidates) ''No Role'' = Some g
              \<and> RoleGroup.totalCandidates g
                  = length (filter (\<lambda>x. roleKey x = ''No Role'') candidates)
              \<and> 0 < RoleGroup.totalCandidates g)
       \<and> (\<exists>g. map_of (roleQuality candidates) ''No Role'' = Some g
              \<and> QualityGroup.totalCandidates g
                  = length (filter (\<lambda>x. roleKey x = ''No Role'') candidates)
              \<and> 0 < QualityGroup.totalCandidates g)"
proof -
  have key: "roleKey c = ''No Role''"
    using assms(2,3) by (rule roleKey_roleless)
  with assms(1) have mem: "''No Role'' \<in> roleKey ` set candidates"
    by force
  from assms(1) key have pos: "0 < length (filter (\<lambda>x. roleKey x = ''No Role'') candidates)"
    by (auto simp add: filter_empty_conv)
  from mem obtain g where g: "map_of (roleAnalysis candidates) ''No Role'' = Some g"
    using roleAnalysis_total [of candidates "''No Role''"] by auto
  then have "RoleGroup.totalCandidates g = length (filter (\<lambda>x. roleKey x = ''No Role'') candidates)"
    using roleAnalysis_total [of candidates "''No Role''"] by simp
  with g pos have first: "\<exists>g. map_of (roleAnalysis candidates) ''No Role'' = Some g
              \<and> RoleGroup.totalCandidates g
                  = length (filter (\<lambda>x. roleKey x = ''No Role'') candidates)
              \<and> 0 < RoleGroup.totalCandidates g"
    by simp
  from mem obtain q where q: "map_of (roleQuality candidates) ''No Role'' = Some q"
    using roleQuality_total [of candidates "''No Role''"] by auto
  then have "QualityGroup.totalCandidates q = length (filter (\<lambda>x. roleKey x = ''No Role'') candidates)"
    using roleQuality_total [of candidates "''No Role''"] by simp
  with q pos have second: "\<exists>g. map_of (roleQuality candidates) ''No Role'' = Some g
              \<and> QualityGroup.totalCandidates g
                  = length (filter (\<lambda>x. roleKey x = ''No Role'') candidates)
              \<and> 0 < QualityGroup.totalCandidates g"
    by simp
  from key first second show ?thesis
    by (intro conjI)
qed

theorem C7_roleless_grouped_under_No_Role_witness:
  "jobRole (scoresOnly 5 0) = [] \<and> Candidate.role (scoresOnly 5 0) = []
   \<and> roleKey (scoresOnly 5 0) = ''No Role''
   \<and> (\<exists>g. map_of (roleAnalysis [engineer [] [] 8 0, scoresOnly 5 0, scoresOnly 0 0]) ''No Role''
            = Some g \<and> RoleGroup.totalCandidates g = 2)
   \<and> (\<exists>g. map_of (roleQuality [engineer [] [] 8 0, scoresOnly 5 0, scoresOnly 0 0]) ''No Role''
            = Some g \<and> QualityGroup.totalCandidates g = 2)"
proof -
  let ?cs = "[engineer [] [] 8 0, scoresOnly 5 0, scoresOnly 0 0]"
  have h1: "scoresOnly 5 0 \<in> set ?cs" by simp
  have h2: "jobRole (scoresOnly 5 0) = []" by (simp add: scoresOnly_def)
  have h3: "Candidate.role (scoresOnly 5 0) = []" by (simp add: scoresOnly_def)
  have n: "length (filter (\<lambda>x. roleKey x = ''No Role'') ?cs) = 2"
    by (simp add: roleKey_def engineer_def scoresOnly_def)
  show ?thesis
    using C7_roleless_grouped_under_No_Role [where c = "scoresOnly 5 0" and candidates = ?cs,
        OF h1 h2 h3] h2 h3
    unfolding n by auto
qed

lemma tallyQuality_fields:
  "QualityGroup.role (tallyQuality c g) = QualityGroup.role g"
  "QualityGroup.aiScoreSum (tallyQuality c g)
   = QualityGroup.aiScoreSum g + (if aiScore c > 0 then aiScore c else 0)"
  "aiScoreCount (tallyQuality c g) = aiScoreCount g + (if aiScore c > 0 then 1 else 0)"
  "QualityGroup.humanScoreSum (tallyQuality c g)
   = QualityGroup.humanScoreSum g + (if humanScore c > 0 then humanScore c else 0)"
  "humanScoreCount (tallyQuality c g) = humanScoreCount g + (if humanScore c > 0 then 1 else 0)"
  by (simp_all add: tallyQuality_def Let_def)

lemma roleQuality_sums:
  assumes "map_of (roleQuality cs) k = Some g"
  shows "QualityGroup.role g = k
       \<and> QualityGroup.aiScoreSum g
           = sum_list (map aiScore (filter (\<lambda>x. roleKey x = k \<and> aiScore x > 0) cs))
       \<and> aiScoreCount g = length (filter (\<lambda>x. roleKey x = k \<and> aiScore x > 0) cs)
       \<and> QualityGroup.humanScoreSum g
           = sum_list (map humanScore (filter (\<lambda>x. roleKey x = k \<and> humanScore x > 0) cs))
       \<and> humanScoreCount g = length (filter (\<lambda>x. roleKey x = k \<and> humanScore x > 0) cs)"
  using assms
proof (induction cs arbitrary: g rule: rev_induct)
  case Nil
  then show ?case by (simp add: roleQuality_def)
next
  case (snoc c cs)
  show ?case
  proof (cases "k = roleKey c")
    case False
    with snoc.prems have "map_of (roleQuality cs) k = Some g"
      by (simp add: roleQuality_snoc map_of_roleQualityStep)
    from snoc.IH [OF this] False show ?thesis
      by auto
  next
    case True
    show ?thesis
    proof (cases "map_of (roleQuality cs) k")
      case None
      then have "k \<notin> roleKey ` set cs"
        using roleQuality_total [of cs k] by simp
      then have "filter (\<lambda>x. roleKey x = k \<and> P x) cs = []" for P
        by (auto simp add: filter_empty_conv)
      moreover from snoc.prems True None have "g = tallyQuality c (newQualityGroup k)"
        by (simp add: roleQuality_snoc map_of_roleQualityStep)
      ultimately show ?thesis
        using True by (simp add: tallyQuality_fields newQualityGroup_def)
    next
      case (Some g0)
      with snoc.prems True have "g = tallyQuality c g0"
        by (simp add: roleQuality_snoc map_of_roleQualityStep)
      with snoc.IH [OF Some] True show ?thesis
        by (simp add: tallyQuality_fields)
    qed
  qed
qed

lemma distinct_roleQuality: "distinct (map fst (roleQuality cs))"
  by (induction cs rule: rev_induct)
    (simp_all add: roleQuality_def roleQualityStep_def Let_def distinct_update)

text \<open>The fold of \<open>CandidateQualityTab\<close> does what claim C8 says: the average of a row
  is taken over the records of its role with a positive score, and is 0 without any.\<close>

lemma roleQualityData_averages:
  assumes "row \<in> set (roleQualityData candidates)"
  shows "QualityRow.avgAiScore row
         = (let scored = filter (\<lambda>x. roleKey x = QualityGroup.role row \<and> aiScore x > 0) candidates
            in if length scored > 0 then sum_list (map aiScore scored) / of_nat (length scored)
               else 0)
       \<and> QualityRow.avgHumanScore row
         = (let scored = filter (\<lambda>x. roleKey x = QualityGroup.role row \<and> humanScore x > 0) candidates
            in if length scored > 0 then sum_list (map humanScore scored) / of_nat (length scored)
               else 0)"
proof -
  from assms obtain k g where kg: "(k, g) \<in> set (roleQuality candidates)" and row: "row = qualityRow g"
    by (auto simp add: roleQualityData_def)
  then have "map_of (roleQuality candidates) k = Some g"
    using distinct_roleQuality by simp
  from roleQuality_sums [OF this] show ?thesis
    by (simp add: row qualityRow_def Let_def)
qed

lemma tallyCandidate_fields:
  "RoleGroup.role (tallyCandidate c g) = RoleGroup.role g"
  "RoleGroup.aiScoreSum (tallyCandidate c g)
   = RoleGroup.aiScoreSum g
     + (if source c \<noteq> [] \<and> status c \<noteq> [] \<and> aiScore c > 0 then aiScore c else 0)"
  "aiProcessedCount (tallyCandidate c g)
   = aiProcessedCount g
     + (if source c \<noteq> [] \<and> status c \<noteq> [] \<and> aiScore c > 0 then 1 else 0)"
  "RoleGroup.humanScoreSum (tallyCandidate c g)
   = RoleGroup.humanScoreSum g
     + (if source c \<noteq> [] \<and> status c \<noteq> [] \<and> humanScore c > 0 then humanScore c else 0)"
  "humanProcessedCount (tallyCandidate c g)
   = humanProcessedCount g
     + (if source c \<noteq> [] \<and> status c \<noteq> [] \<and> humanScore c > 0 then 1 else 0)"
  by (simp_all add: tallyCandidate_def Let_def)

lemma roleAnalysis_sums:
  assumes "map_of (roleAnalysis cs) k = Some g"
  shows "RoleGroup.role g = k
       \<and> RoleGroup.aiScoreSum g
           = sum_list (map aiScore
               (filter (\<lambda>x. roleKey x = k \<and> source x \<noteq> [] \<and> status x \<noteq> [] \<and> aiScore x > 0) cs))
       \<and> aiProcessedCount g
           = length (filter (\<lambda>x. roleKey x = k \<and> source x \<noteq> [] \<and> status x \<noteq> [] \<and> aiScore x > 0) cs)
       \<and> RoleGroup.humanScoreSum g
           = sum_list (map humanScore
               (filter (\<lambda>x. roleKey x = k \<and> source x \<noteq> [] \<and> status x \<noteq> [] \<and> humanScore x > 0) cs))
       \<and> humanProcessedCount g
           = length (filter (\<lambda>x. roleKey x = k \<and> source x \<noteq> [] \<and> status x \<noteq> [] \<and> humanScore x > 0) cs)"
  using assms
proof (induction cs arbitrary: g rule: rev_induct)
  case Nil
  then show ?case by (simp add: roleAnalysis_def)
next
  case (snoc c cs)
  show ?case
  proof (cases "k = roleKey c")
    case False
    with snoc.prems have "map_of (roleAnalysis cs) k = Some g"
      by (simp add: roleAnalysis_snoc map_of_roleAnalysisStep)
    from snoc.IH [OF this] False show ?thesis
      by auto
  next
    case True
    show ?thesis
    proof (cases "map_of (roleAnalysis cs) k")
      case None
      then have "k \<notin> roleKey ` set cs"
        using roleAnalysis_total [of cs k] by simp
      then have "filter (\<lambda>x. roleKey x = k \<and> P x) cs = []" for P
        by (auto simp add: filter_empty_conv)
      moreover from snoc.prems True None have "g = tallyCandidate c (newRoleGroup k)"
        by (simp add: roleAnalysis_snoc map_of_roleAnalysisStep)
      ultimately show ?thesis
        using True by (simp add: tallyCandidate_fields newRoleGroup_def)
    next
      case (Some g0)
      with snoc.prems True have "g = tallyCandidate c g0"
        by (simp add: roleAnalysis_snoc map_of_roleAnalysisStep)
      with snoc.IH [OF Some] True show ?thesis
        by (simp add: tallyCandidate_fields)
    qed
  qed
qed

lemma distinct_roleAnalysis: "distinct (map fst (roleAnalysis cs))"
  by (induction cs rule: rev_induct)
    (simp_all add: roleAnalysis_def roleAnalysisStep_def Let_def distinct_update)

text \<open>The fold of \<open>RolePerformanceTab\<close> takes the average of a row over the records
  of its role that have a source, a status and a positive score.\<close>

lemma roleData_averages:
  assumes "row \<in> set (roleData candidates)"
  shows "RoleGroup.avgAiScore row
         = (let scored = filter (\<lambda>x. roleKey x = RoleGroup.role row \<and> source x \<noteq> []
                                    \<and> status x \<noteq> [] \<and> aiScore x > 0) candidates
            in if length scored > 0 then sum_list (map aiScore scored) / of_nat (length scored)
               else 0)
       \<and> RoleGroup.avgHumanScore row
         = (let scored = filter (\<lambda>x. roleKey x = RoleGroup.role row \<and> source x \<noteq> []
                                    \<and> status x \<noteq> [] \<and> humanScore x > 0) candidates
            in if length scored > 0 then sum_list (map humanScore scored) / of_nat (length scored)
               else 0)"
proof -
  from assms obtain k g where kg: "(k, g) \<in> set (roleAnalysis candidates)" and row: "row = roleRow g"
    by (auto simp add: roleData_def)
  then have "map_of (roleAnalysis candidates) k = Some g"
    using distinct_roleAnalysis by simp
  from roleAnalysis_sums [OF this] show ?thesis
    by (simp add: row roleRow_def Let_def)
qed

text \<open>
  Claim C8, as the code has it. Two candidates for one role have AI scores 8 and 4; the
  first has no source. The claim's average for the role is \<open>(8 + 4) / 2 = 6\<close>, and
  \<open>roleQualityData\<close> of \<open>CandidateQualityTab\<close> yields 6; \<open>roleData\<close> of
  \<open>RolePerformanceTab\<close> yields 4, because its callback skips a candidate without
  source (or without status) after counting it and before adding its scores.
\<close>

theorem C8_roleData_skips_unsourced_scores:
  "map (\<lambda>c. (roleKey c, aiScore c > 0)) [engineer [] [] 8 0, engineer ''LinkedIn'' ''New'' 4 0]
     = [(''AI Engineer'', True), (''AI Engineer'', True)]
   \<and> sum_list (map aiScore [engineer [] [] 8 0, engineer ''LinkedIn'' ''New'' 4 0]) / 2 = 6
   \<and> map (\<lambda>row. (RoleGroup.role row, RoleGroup.totalCandidates row, RoleGroup.aiProcessedCount row,
                 RoleGroup.avgAiScore row))
       (roleData [engineer [] [] 8 0, engineer ''LinkedIn'' ''New'' 4 0])
     = [(''AI Engineer'', 2, 1, 4)]
   \<and> map (\<lambda>row. (QualityGroup.role row, QualityGroup.totalCandidates row, aiScoreCount row,
                 QualityRow.avgAiScore row))
       (roleQualityData [engineer [] [] 8 0, engineer ''LinkedIn'' ''New'' 4 0])
     = [(''AI Engineer'', 2, 2, 6)]"
  by (simp add: roleData_def roleAnalysis_def roleAnalysisStep_def roleRow_def
      roleQualityData_def roleQuality_def roleQualityStep_def qualityRow_def
      roleKey_def engineer_def scoresOnly_def tallyCandidate_def tallyQuality_def
      newRoleGroup_def newQualityGroup_def increment_def Let_def)

text \<open>
  Claim C8, amended. In the role breakdown of \<open>RolePerformanceTab\<close>, the \<open>avgAiScore\<close>
  of every group is the sum of \<open>aiScore\<close> over the group's records that have a source,
  a status and \<open>aiScore > 0\<close>, divided by the number of those records, and 0 when there
  is none; in the role breakdown of \<open>CandidateQualityTab\<close> it is the same over all the
  group's records with \<open>aiScore > 0\<close>. Neither divides by the group's total record
  count. \<open>avgHumanScore\<close> is analogous over \<open>humanScore > 0\<close>.
\<close>

theorem C8_role_averages:
  "(\<forall>row \<in> set (roleData candidates).
      RoleGroup.avgAiScore row
        = (let scored = filter (\<lambda>x. roleKey x = RoleGroup.role row \<and> source x \<noteq> []
                                   \<and> status x \<noteq> [] \<and> aiScore x > 0) candidates
           in if length scored > 0 then sum_list (map aiScore scored) / of_nat (length scored)
              else 0)
      \<and> RoleGroup.avgHumanScore row
        = (let scored = filter (\<lambda>x. roleKey x = RoleGroup.role row \<and> source x \<noteq> []
                                   \<and> status x \<noteq> [] \<and> humanScore x > 0) candidates
           in if length scored > 0 then sum_list (map humanScore scored) / of_nat (length scored)
              else 0))
   \<and> (\<forall>row \<in> set (roleQualityData candidates).
      QualityRow.avgAiScore row
        = (let scored = filter (\<lambda>x. roleKey x = QualityGroup.role row \<and> aiScore x > 0) candidates
           in if length scored > 0 then sum_list (map aiScore scored) / of_nat (length scored)
              else 0)
      \<and> QualityRow.avgHumanScore row
        = (let scored = filter (\<lambda>x. roleKey x = QualityGroup.role row \<and> humanScore x > 0)
                          candidates
           in if length scored > 0 then sum_list (map humanScore scored) / of_nat (length scored)
              else 0))"
  using roleData_averages [of _ candidates] roleQualityData_averages [of _ candidates]
  by blast

theorem C8_role_averages_witness:
  "list_all (\<lambda>row. RoleGroup.avgAiScore row
        = (let scored = filter (\<lambda>x. roleKey x = RoleGroup.role row \<and> source x \<noteq> []
                                   \<and> status x \<noteq> [] \<and> aiScore x > 0)
                          [engineer [] [] 8 6, engineer ''LinkedIn'' ''New'' 4 0,
                           engineer ''Referral'' ''New'' 7 9]
           in if length scored > 0 then sum_list (map aiScore scored) / of_nat (length scored)
              else 0))
     (roleData [engineer [] [] 8 6, engineer ''LinkedIn'' ''New'' 4 0,
                engineer ''Referral'' ''New'' 7 9])
   \<and> map (\<lambda>row. (RoleGroup.totalCandidates row, RoleGroup.avgAiScore row,
                 RoleGroup.avgHumanScore row))
       (roleData [engineer [] [] 8 6, engineer ''LinkedIn'' ''New'' 4 0,
                  engineer ''Referral'' ''New'' 7 9])
     = [(3, 11 / 2, 9)]
   \<and> map (\<lambda>row. (QualityGroup.totalCandidates row, QualityRow.avgAiScore row,
                 QualityRow.avgHumanScore row))
       (roleQualityData [engineer [] [] 8 6, engineer ''LinkedIn'' ''New'' 4 0,
                         engineer ''Referral'' ''New'' 7 9])
     = [(3, 19 / 3, 15 / 2)]"
proof -
  let ?cs = "[engineer [] [] 8 6, engineer ''LinkedIn'' ''New'' 4 0,
              engineer ''Referral'' ''New'' 7 9]"
  have vals: "map (\<lambda>row. (RoleGroup.totalCandidates row, RoleGroup.avgAiScore row,
                 RoleGroup.avgHumanScore row)) (roleData ?cs) = [(3, 11 / 2, 9)]"
    "map (\<lambda>row. (QualityGroup.totalCandidates row, QualityRow.avgAiScore row,
                 QualityRow.avgHumanScore row)) (roleQualityData ?cs) = [(3, 19 / 3, 15 / 2)]"
    by (simp_all add: roleData_def roleAnalysis_def roleAnalysisStep_def roleRow_def
      roleQualityData_def roleQuality_def roleQualityStep_def qualityRow_def
      roleKey_def engineer_def scoresOnly_def tallyCandidate_def tallyQuality_def
      newRoleGroup_def newQualityGroup_def increment_def Let_def)
  show ?thesis
    using C8_role_averages [of ?cs] vals
    by (simp add: list_all_iff)
qed

end
